theory Spec2Isabelle
  imports Complex_Main
begin

section \<open>Python values and strings\<close>

text \<open>
  The program is Python. A string is a \<open>char list\<close>; the values that travel through
  the ticket payload and the configuration map are JSON-shaped Python objects. Floats
  are represented by the rational number they denote (rounding is not modelled), and
  calls to the logger are left out: they do not touch the state the program works on.
\<close>

datatype pyval =
    PNone
  | PBool bool
  | PInt int
  | PFloat rat
  | PStr string
  | PList "pyval list"
  | PDict "(string \<times> pyval) list"

type_synonym config = "string \<Rightarrow> pyval option"

definition ascii_lowercase :: string where
  "ascii_lowercase = ''abcdefghijklmnopqrstuvwxyz''"

definition ascii_uppercase :: string where
  "ascii_uppercase = ''ABCDEFGHIJKLMNOPQRSTUVWXYZ''"

definition ascii_digits :: string where
  "ascii_digits = ''0123456789''"

definition is_lower :: "char \<Rightarrow> bool" where
  "is_lower c = (c \<in> set ascii_lowercase)"

definition is_digit :: "char \<Rightarrow> bool" where
  "is_digit c = (c \<in> set ascii_digits)"

definition starts_with :: "string \<Rightarrow> string \<Rightarrow> bool" where
  "starts_with p s = (take (length p) s = p)"

text \<open>A text between single quotes, as the messages of the program show their values.\<close>

definition quoted :: "string \<Rightarrow> string" where
  "quoted s = [CHR 0x27] @ s @ [CHR 0x27]"

section \<open>The resource hierarchy index\<close>

text \<open>
  \<open>base.py\<close>, class \<open>HierarchyrProvisioner\<close>. An asset of the Cloud Asset Inventory
  has a type, a full resource name, the string-valued entries of \<open>resource.data\<close>
  (\<open>displayName\<close>, \<open>name\<close>, \<open>projectId\<close>, \<open>parent\<close>) and its ancestors.
\<close>

record asset =
  asset_type :: string
  asset_name :: string
  resource_data :: "string \<Rightarrow> string option"
  ancestors :: "string list"

definition FOLDER :: string where
  "FOLDER = ''cloudresourcemanager.googleapis.com/Folder''"

definition PROJECT :: string where
  "PROJECT = ''cloudresourcemanager.googleapis.com/Project''"

text \<open>
  The bulk listing either raises or yields its pages. \<open>_list_projects_and_folders\<close>
  catches the exception and returns the empty list.
\<close>

datatype listing = ListingFailed string | Listed "asset list list"

fun list_projects_and_folders :: "listing \<Rightarrow> asset list" where
  "list_projects_and_folders (ListingFailed e) = []"
| "list_projects_and_folders (Listed pages) = concat pages"

text \<open>
  \<open>data.get(k) == resource_name\<close>: a missing entry reads as \<open>None\<close>, a present one
  as a string.
\<close>

definition data_get_eq :: "asset \<Rightarrow> string \<Rightarrow> pyval \<Rightarrow> bool" where
  "data_get_eq a k v =
     (case resource_data a k of None \<Rightarrow> v = PNone | Some s \<Rightarrow> v = PStr s)"

text \<open>
  \<open>check_if_resource_exist\<close>. The name looked up for a project is always a string
  built by the caller, so \<open>f"projects/{resource_name}"\<close> is a concatenation; for
  any other value the formatted text is supplied by \<open>fmt\<close>, Python's \<open>str()\<close>.
\<close>

fun check_if_resource_exist ::
  "(pyval \<Rightarrow> string) \<Rightarrow> asset list \<Rightarrow> pyval \<Rightarrow> string \<Rightarrow> string option" where
  "check_if_resource_exist fmt [] resource_name resource_type = None"
| "check_if_resource_exist fmt (a # assets) resource_name resource_type =
     (if asset_type a = resource_type then
        (if resource_type = FOLDER \<and> data_get_eq a ''displayName'' resource_name
         then Some (asset_name a)
         else if resource_type = PROJECT \<and>
                 (data_get_eq a ''name'' (PStr (''projects/'' @ fmt resource_name)) \<or>
                  data_get_eq a ''projectId'' resource_name)
         then Some (asset_name a)
         else check_if_resource_exist fmt assets resource_name resource_type)
      else check_if_resource_exist fmt assets resource_name resource_type)"

text \<open>
  \<open>extract_dw_environment\<close>: \<open>re.match(r"^dw-([a-z]+)-", text)\<close>. The group is
  greedy and a hyphen is no lowercase letter, so the group can only be the whole run
  of lowercase letters after \<open>dw-\<close>, and a hyphen has to follow it.
\<close>

definition extract_dw_environment :: "string \<Rightarrow> string option" where
  "extract_dw_environment text =
     (if starts_with ''dw-'' text then
        (let rest = drop 3 text;
             env = takeWhile is_lower rest;
             after = dropWhile is_lower rest
         in if env \<noteq> [] \<and> starts_with ''-'' after then Some env else None)
      else None)"

section \<open>Exceptions, the ticket notifier and Python's built-in operations\<close>

text \<open>
  Every exception class the program raises or catches is a constructor; the argument is
  the message, \<open>str(e)\<close>, except for \<open>KeyError\<close>, which carries its key.
\<close>

datatype exn =
    ValueError string
  | KeyError string
  | TypeError string
  | AttributeError string
  | NameError string
  | FileExistsError string
  | RequestException string
  | PyException string
  | PyBaseException string
  | InvalidMethodError string
  | InvalidPayloadError string
  | MissingRequiredDataError string
  | InvalidJiraConfigurationParser string
  | GcpProvisioningError string
  | GitHubOperationError string

fun exn_str :: "exn \<Rightarrow> string" where
  "exn_str (ValueError m) = m"
| "exn_str (KeyError k) = quoted k"
| "exn_str (TypeError m) = m"
| "exn_str (AttributeError m) = m"
| "exn_str (NameError m) = m"
| "exn_str (FileExistsError m) = m"
| "exn_str (RequestException m) = m"
| "exn_str (PyException m) = m"
| "exn_str (PyBaseException m) = m"
| "exn_str (InvalidMethodError m) = m"
| "exn_str (InvalidPayloadError m) = m"
| "exn_str (MissingRequiredDataError m) = m"
| "exn_str (InvalidJiraConfigurationParser m) = m"
| "exn_str (GcpProvisioningError m) = m"
| "exn_str (GitHubOperationError m) = m"

text \<open>
  \<open>logger.py\<close>: \<open>add_comment_to_jira_issue(jira_id, comment_text, comment_type)\<close> and
  \<open>change_issue_status(transition_name, jira_id)\<close>. The trace records each call with
  its arguments, in order; the glyph that prefixes the posted text is a function of
  the comment type alone.
\<close>

datatype event =
    Comment pyval string string
  | Transition pyval string

text \<open>
  The built-ins whose code is not part of the repository are parameters: \<open>re.match\<close>
  on a pattern and a subject, \<open>str()\<close> of a value that is not a string, \<open>float()\<close>
  of a string (\<open>None\<close> stands for its \<open>ValueError\<close>) and
  \<open>traceback.format_exc()\<close>, \<open>yaml.dump(d, indent=2)\<close>, \<open>base64.b64encode\<close> of
  the UTF-8 bytes of a text, and \<open>base64.b64decode(s).decode('utf-8')\<close>.
\<close>

record builtins =
  re_match :: "string \<Rightarrow> string \<Rightarrow> bool"
  py_repr :: "pyval \<Rightarrow> string"
  float_of_str :: "string \<Rightarrow> rat option"
  format_exc :: "exn \<Rightarrow> string"
  yaml_dump :: "pyval \<Rightarrow> string"
  b64encode :: "string \<Rightarrow> string"
  b64decode_text :: "string \<Rightarrow> exn + string"

definition py_str :: "builtins \<Rightarrow> pyval \<Rightarrow> string" where
  "py_str B v = (case v of PStr s \<Rightarrow> s | _ \<Rightarrow> py_repr B v)"

fun py_truthy :: "pyval \<Rightarrow> bool" where
  "py_truthy PNone = False"
| "py_truthy (PBool b) = b"
| "py_truthy (PInt i) = (i \<noteq> 0)"
| "py_truthy (PFloat r) = (r \<noteq> 0)"
| "py_truthy (PStr s) = (s \<noteq> [])"
| "py_truthy (PList xs) = (xs \<noteq> [])"
| "py_truthy (PDict d) = (d \<noteq> [])"

fun is_substring :: "string \<Rightarrow> string \<Rightarrow> bool" where
  "is_substring k [] = (k = [])"
| "is_substring k (c # s) = (starts_with k (c # s) \<or> is_substring k s)"

text \<open>\<open>k in v\<close> for a string \<open>k\<close>.\<close>

fun py_contains :: "string \<Rightarrow> pyval \<Rightarrow> exn + bool" where
  "py_contains k (PDict d) = Inr (map_of d k \<noteq> None)"
| "py_contains k (PStr s) = Inr (is_substring k s)"
| "py_contains k (PList xs) = Inr (PStr k \<in> set xs)"
| "py_contains k v = Inl (TypeError ''argument is not iterable'')"

text \<open>\<open>v[k]\<close> for a string \<open>k\<close>.\<close>

fun py_getitem :: "pyval \<Rightarrow> string \<Rightarrow> exn + pyval" where
  "py_getitem (PDict d) k = (case map_of d k of None \<Rightarrow> Inl (KeyError k) | Some x \<Rightarrow> Inr x)"
| "py_getitem v k = Inl (TypeError ''indices must be integers or object is not subscriptable'')"

text \<open>\<open>float(v)\<close>.\<close>

fun py_float :: "builtins \<Rightarrow> pyval \<Rightarrow> exn + rat" where
  "py_float B (PStr s) =
     (case float_of_str B s of
        None \<Rightarrow> Inl (ValueError ''could not convert string to float'')
      | Some r \<Rightarrow> Inr r)"
| "py_float B (PInt i) = Inr (of_int i)"
| "py_float B (PFloat r) = Inr r"
| "py_float B (PBool b) = Inr (if b then 1 else 0)"
| "py_float B v = Inl (TypeError ''float() argument must be a string or a real number'')"

fun join :: "string \<Rightarrow> string list \<Rightarrow> string" where
  "join sep [] = []"
| "join sep [x] = x"
| "join sep (x # y # ys) = x @ sep @ join sep (y # ys)"

section \<open>The field extractor\<close>

text \<open>
  \<open>configurations.py\<close> gives one dictionary per field; \<open>parsers.py\<close>, class
  \<open>PayloadParser\<close>, reads it. A field table is the list of its items in order.
\<close>

record field_config =
  ftype :: string
  input_name :: string
  output_name :: string
  mandatory :: bool
  validation :: "string option"
  regex_error_message :: "string option"

type_synonym ticket_fields = "(string \<times> field_config) list"

definition issue_key_or_unknown :: "config \<Rightarrow> pyval" where
  "issue_key_or_unknown cfg =
     (case cfg ''ISSUE_KEY'' of None \<Rightarrow> PStr ''UNKNOWN_JIRA_ID'' | Some v \<Rightarrow> v)"

definition error_comment :: "config \<Rightarrow> string \<Rightarrow> event" where
  "error_comment cfg msg = Comment (issue_key_or_unknown cfg) msg ''error''"

definition process_dropdown :: "config \<Rightarrow> field_config \<Rightarrow> pyval \<Rightarrow> exn + config" where
  "process_dropdown cfg fc field_value =
     (if py_truthy field_value then
        (case py_contains ''value'' field_value of
           Inl e \<Rightarrow> Inl e
         | Inr False \<Rightarrow> Inr cfg
         | Inr True \<Rightarrow>
             (case py_getitem field_value ''value'' of
                Inl e \<Rightarrow> Inl e
              | Inr v \<Rightarrow> Inr (cfg(output_name fc \<mapsto> v))))
      else Inr cfg)"

text \<open>\<open>field_value[0]\<close> after \<open>len(field_value) > 0\<close> has been evaluated.\<close>

fun py_first :: "pyval \<Rightarrow> exn + pyval" where
  "py_first (PList (x # xs)) = Inr x"
| "py_first (PStr (c # s)) = Inr (PStr [c])"
| "py_first (PDict d) = Inl (KeyError ''0'')"
| "py_first v = Inl (TypeError ''object has no len()'')"

definition process_people :: "config \<Rightarrow> field_config \<Rightarrow> pyval \<Rightarrow> exn + config" where
  "process_people cfg fc field_value =
     (if py_truthy field_value then
        (case py_first field_value of
           Inl e \<Rightarrow> Inl e
         | Inr x \<Rightarrow>
            (case py_contains ''displayName'' x of
               Inl e \<Rightarrow> Inl e
             | Inr False \<Rightarrow> Inr cfg
             | Inr True \<Rightarrow>
                 (case py_getitem x ''displayName'' of
                    Inl e \<Rightarrow> Inl e
                  | Inr v \<Rightarrow> Inr (cfg(output_name fc \<mapsto> v)))))
      else Inr cfg)"

definition process_reporter :: "config \<Rightarrow> field_config \<Rightarrow> pyval \<Rightarrow> exn + config" where
  "process_reporter cfg fc field_value =
     (if py_truthy field_value then
        (case py_contains ''displayName'' field_value of
           Inl e \<Rightarrow> Inl e
         | Inr False \<Rightarrow> Inr cfg
         | Inr True \<Rightarrow>
             (case py_getitem field_value ''displayName'' of
                Inl e \<Rightarrow> Inl e
              | Inr v \<Rightarrow> Inr (cfg(output_name fc \<mapsto> v))))
      else Inr cfg)"

definition process_dropdown_nested :: "config \<Rightarrow> field_config \<Rightarrow> pyval \<Rightarrow> exn + config" where
  "process_dropdown_nested cfg fc field_value =
     (if py_truthy field_value then
        (case py_contains ''child'' field_value of
           Inl e \<Rightarrow> Inl e
         | Inr False \<Rightarrow> Inr cfg
         | Inr True \<Rightarrow>
            (case py_getitem field_value ''child'' of
               Inl e \<Rightarrow> Inl e
             | Inr child \<Rightarrow>
                (case py_contains ''value'' child of
                   Inl e \<Rightarrow> Inl e
                 | Inr False \<Rightarrow> Inr cfg
                 | Inr True \<Rightarrow>
                     (case py_getitem child ''value'' of
                        Inl e \<Rightarrow> Inl e
                      | Inr v \<Rightarrow> Inr (cfg(output_name fc \<mapsto> v))))))
      else Inr cfg)"

text \<open>The comprehension \<open>[item['value'] for item in field_value if 'value' in item]\<close>.\<close>

fun checklist_values :: "pyval list \<Rightarrow> exn + pyval list" where
  "checklist_values [] = Inr []"
| "checklist_values (item # items) =
     (case py_contains ''value'' item of
        Inl e \<Rightarrow> Inl e
      | Inr False \<Rightarrow> checklist_values items
      | Inr True \<Rightarrow>
          (case py_getitem item ''value'' of
             Inl e \<Rightarrow> Inl e
           | Inr v \<Rightarrow>
              (case checklist_values items of
                 Inl e \<Rightarrow> Inl e
               | Inr vs \<Rightarrow> Inr (v # vs))))"

definition process_checklist :: "config \<Rightarrow> field_config \<Rightarrow> pyval \<Rightarrow> exn + config" where
  "process_checklist cfg fc field_value =
     (case field_value of
        PList items \<Rightarrow>
          (case checklist_values items of
             Inl e \<Rightarrow> Inl e
           | Inr vs \<Rightarrow> Inr (cfg(output_name fc \<mapsto> PList vs)))
      | _ \<Rightarrow> Inr cfg)"

definition regex_message :: "field_config \<Rightarrow> string" where
  "regex_message fc = (case regex_error_message fc of None \<Rightarrow> [] | Some m \<Rightarrow> m)"

text \<open>
  The parser functions that comment on the ticket return the comments of the call
  together with the outcome.
\<close>

definition process_textfield ::
  "builtins \<Rightarrow> config \<Rightarrow> field_config \<Rightarrow> pyval \<Rightarrow> event list \<times> (exn + config)" where
  "process_textfield B cfg fc attribute_found =
     (if attribute_found \<noteq> PNone then
        (case validation fc of
           Some regex_validation \<Rightarrow>
             (if regex_validation \<noteq> [] then
                (case attribute_found of
                   PStr s \<Rightarrow>
                     (if \<not> re_match B regex_validation s then
                        ([error_comment cfg
                            (''Invalid value '' @ quoted s @ '' found for ''
                             @ quoted (output_name fc) @ ''. '' @ regex_message fc)],
                         Inr cfg)
                      else ([], Inr (cfg(output_name fc \<mapsto> attribute_found))))
                 | _ \<Rightarrow> ([], Inl (TypeError ''expected string or bytes-like object'')))
              else ([], Inr (cfg(output_name fc \<mapsto> attribute_found))))
         | None \<Rightarrow> ([], Inr (cfg(output_name fc \<mapsto> attribute_found))))
      else ([], Inr cfg))"

definition invalid_numeric_comment :: "builtins \<Rightarrow> config \<Rightarrow> field_config \<Rightarrow> pyval \<Rightarrow> event" where
  "invalid_numeric_comment B cfg fc attribute_found =
     error_comment cfg
       (''Invalid numeric value '' @ quoted (py_str B attribute_found)
        @ '' for '' @ quoted (output_name fc))"

definition store_float ::
  "builtins \<Rightarrow> config \<Rightarrow> field_config \<Rightarrow> pyval \<Rightarrow> event list \<times> (exn + config)" where
  "store_float B cfg fc attribute_found =
     (case py_float B attribute_found of
        Inr r \<Rightarrow> ([], Inr (cfg(output_name fc \<mapsto> PFloat r)))
      | Inl (ValueError m) \<Rightarrow> ([invalid_numeric_comment B cfg fc attribute_found], Inr cfg)
      | Inl e \<Rightarrow> ([], Inl e))"

definition process_numericfield ::
  "builtins \<Rightarrow> config \<Rightarrow> field_config \<Rightarrow> pyval \<Rightarrow> event list \<times> (exn + config)" where
  "process_numericfield B cfg fc attribute_found =
     (if attribute_found \<noteq> PNone then
        (let str_attribute_found = py_str B attribute_found in
         case validation fc of
           Some regex_validation \<Rightarrow>
             (if regex_validation \<noteq> [] then
                (if \<not> re_match B regex_validation str_attribute_found then
                   ([error_comment cfg
                       (''Invalid value '' @ quoted str_attribute_found @ '' for ''
                        @ quoted (output_name fc) @ ''. '' @ regex_message fc)],
                    Inr cfg)
                 else store_float B cfg fc attribute_found)
              else store_float B cfg fc attribute_found)
         | None \<Rightarrow> store_float B cfg fc attribute_found)
      else ([], Inr cfg))"

text \<open>\<open>_check_mandatory_fields\<close>: one comment per missing field, then one \<open>ValueError\<close>.\<close>

definition missing_mandatory_fields :: "config \<Rightarrow> ticket_fields \<Rightarrow> string list" where
  "missing_mandatory_fields cfg tfields =
     map (\<lambda>(key, fc). output_name fc)
       (filter (\<lambda>(key, fc). mandatory fc \<and> cfg (output_name fc) = None) tfields)"

definition missing_comment :: "config \<Rightarrow> string \<Rightarrow> event" where
  "missing_comment cfg n =
     error_comment cfg
       (''Mandatory field '' @ quoted n @ '' is missing in the request.'')"

definition check_mandatory_fields :: "config \<Rightarrow> ticket_fields \<Rightarrow> event list \<times> (exn + unit)" where
  "check_mandatory_fields cfg tfields =
     (let missing = missing_mandatory_fields cfg tfields
      in (map (missing_comment cfg) missing,
          if missing \<noteq> []
          then Inl (ValueError (''Missing mandatory fields: '' @ join '', '' missing))
          else Inr ()))"

text \<open>
  \<open>_extract_field_value\<close>: \<open>request_json['issue']['fields'][input_name]\<close>, where a
  \<open>KeyError\<close> gives \<open>None\<close> and any other exception is not caught.
\<close>

definition extract_field_value :: "pyval \<Rightarrow> field_config \<Rightarrow> exn + pyval" where
  "extract_field_value request_json fc =
     (case py_getitem request_json ''issue'' of
        Inl (KeyError k) \<Rightarrow> Inr PNone
      | Inl e \<Rightarrow> Inl e
      | Inr issue \<Rightarrow>
         (case py_getitem issue ''fields'' of
            Inl (KeyError k) \<Rightarrow> Inr PNone
          | Inl e \<Rightarrow> Inl e
          | Inr flds \<Rightarrow>
             (case py_getitem flds (input_name fc) of
                Inl (KeyError k) \<Rightarrow> Inr PNone
              | Inl e \<Rightarrow> Inl e
              | Inr v \<Rightarrow> Inr v)))"

text \<open>The dispatch on the field type inside the loop of \<open>parse_jira_request\<close>.\<close>

definition process_field ::
  "builtins \<Rightarrow> config \<Rightarrow> field_config \<Rightarrow> pyval \<Rightarrow> event list \<times> (exn + config)" where
  "process_field B cfg element field_value =
     (if ftype element = ''dropdown'' then ([], process_dropdown cfg element field_value)
      else if ftype element = ''people'' then ([], process_people cfg element field_value)
      else if ftype element = ''reporter'' then ([], process_reporter cfg element field_value)
      else if ftype element = ''dropdown_nested'' then
        ([], process_dropdown_nested cfg element field_value)
      else if ftype element = ''checklist'' then ([], process_checklist cfg element field_value)
      else if ftype element = ''textfield'' then process_textfield B cfg element field_value
      else if ftype element = ''numericfield'' then process_numericfield B cfg element field_value
      else ([], Inr cfg))"

fun parse_fields ::
  "builtins \<Rightarrow> pyval \<Rightarrow> config \<Rightarrow> ticket_fields \<Rightarrow> event list \<times> (exn + config)" where
  "parse_fields B request_json cfg [] = ([], Inr cfg)"
| "parse_fields B request_json cfg ((key, element) # rest) =
     (case extract_field_value request_json element of
        Inl e \<Rightarrow> ([], Inl e)
      | Inr field_value \<Rightarrow>
         (case process_field B cfg element field_value of
            (evs, Inl e) \<Rightarrow> (evs, Inl e)
          | (evs, Inr cfg') \<Rightarrow>
             (case parse_fields B request_json cfg' rest of
                (evs', r) \<Rightarrow> (evs @ evs', r))))"

text \<open>
  The \<open>try\<close> block of \<open>parse_jira_request\<close> and its handlers: a \<open>ValueError\<close> is
  raised again, a \<open>KeyError\<close> and every other \<open>Exception\<close> become a \<open>ValueError\<close>.
  The table of the issue type is chosen by the caller.
\<close>

fun parse_handler :: "builtins \<Rightarrow> exn \<Rightarrow> exn" where
  "parse_handler B (ValueError m) = ValueError m"
| "parse_handler B (KeyError k) =
     ValueError (''Missing key in Jira payload during parsing: '' @ exn_str (KeyError k))"
| "parse_handler B (PyBaseException m) = PyBaseException m"
| "parse_handler B e =
     ValueError (''An unexpected error occurred during parsing: '' @ format_exc B e)"

definition parse_jira_request ::
  "builtins \<Rightarrow> pyval \<Rightarrow> config \<Rightarrow> ticket_fields \<Rightarrow> event list \<times> (exn + config)" where
  "parse_jira_request B request_json cfg tfields =
     (case parse_fields B request_json cfg tfields of
        (evs, Inl e) \<Rightarrow> (evs, Inl (parse_handler B e))
      | (evs, Inr cfg') \<Rightarrow>
         (case check_mandatory_fields cfg' tfields of
            (evs', Inl e) \<Rightarrow> (evs @ evs', Inl (parse_handler B e))
          | (evs', Inr u) \<Rightarrow> (evs @ evs', Inr cfg')))"

section \<open>The field tables\<close>

text \<open>\<open>configurations.py\<close>. The backslash of the budget pattern is \<open>CHR 0x5C\<close>.\<close>

definition budget_pattern :: string where
  "budget_pattern = ''^[0-9]{1,10}'' @ [CHR 0x5C] @ ''.[0-9]{1,5}$''"

definition budget_field :: "string \<Rightarrow> string \<Rightarrow> field_config" where
  "budget_field inp out =
     \<lparr>ftype = ''numericfield'', input_name = inp, output_name = out, mandatory = False,
      validation = Some budget_pattern,
      regex_error_message = Some (quoted out @
        '' must be a numeric value with up to 10 digits before and 5 digits after the decimal point.'')\<rparr>"

definition plain_field :: "string \<Rightarrow> string \<Rightarrow> string \<Rightarrow> bool \<Rightarrow> field_config" where
  "plain_field ty inp out m =
     \<lparr>ftype = ty, input_name = inp, output_name = out, mandatory = m,
      validation = None, regex_error_message = None\<rparr>"

definition folder_name_field :: field_config where
  "folder_name_field =
     \<lparr>ftype = ''textfield'', input_name = ''customfield_10578'', output_name = ''FOLDER_NAME'',
      mandatory = True, validation = Some ''^[0-9A-Za-z-_]{3,30}$'',
      regex_error_message = Some (quoted ''FOLDER_NAME'' @
        '' must be alphanumeric (letters, numbers, '' @ quoted ''-'' @ '', '' @ quoted ''_''
        @ '') and between 3 and 30 characters long.'')\<rparr>"

definition wbs_field :: field_config where
  "wbs_field =
     \<lparr>ftype = ''textfield'', input_name = ''customfield_10644'', output_name = ''WBS'',
      mandatory = False, validation = Some ''^[0-9A-Za-z-_]{3,100}$'',
      regex_error_message = Some (quoted ''WBS'' @
        '' must be alphanumeric (letters, numbers, '' @ quoted ''-'' @ '', '' @ quoted ''_''
        @ '') and between 3 and 100 characters long.'')\<rparr>"

definition project_name_field :: field_config where
  "project_name_field =
     \<lparr>ftype = ''textfield'', input_name = ''customfield_10551'', output_name = ''PROJECT_NAME'',
      mandatory = True, validation = Some ''^[0-9A-Za-z-_]{3,50}$'',
      regex_error_message = Some (''Project names should be alphanumeric (letters, numbers, ''
        @ quoted ''-'' @ '', '' @ quoted ''_'' @ '') and between 3 and 50 characters.'')\<rparr>"

definition project_creation_ticket_fields :: ticket_fields where
  "project_creation_ticket_fields =
     [(''DATASECURITY'', plain_field ''dropdown'' ''customfield_10550'' ''DATASECURITY'' True),
      (''PROJECT_TYPE'', plain_field ''dropdown'' ''customfield_10611'' ''PROJECT_TYPE'' True),
      (''PROJECT_TYPE_FOLDER'',
         plain_field ''dropdown_nested'' ''customfield_10611'' ''PROJECT_TYPE_FOLDER'' True),
      (''ENVIRONMENT'', plain_field ''checklist'' ''customfield_10549'' ''ENVIRONMENT'' True),
      (''BUDGET_DEV'', budget_field ''customfield_10579'' ''BUDGET_DEV''),
      (''BUDGET_TEST'', budget_field ''customfield_10613'' ''BUDGET_TEST''),
      (''BUDGET_PROD'', budget_field ''customfield_10614'' ''BUDGET_PROD''),
      (''PROJECT_NAME'', project_name_field),
      (''FOLDER_NAME'', folder_name_field),
      (''WBS'', wbs_field),
      (''ENGAGEMENT_MANAGER'', plain_field ''reporter'' ''reporter'' ''ENGAGEMENT_MANAGER'' False)]"

definition folder_creation_ticket_fields :: ticket_fields where
  "folder_creation_ticket_fields =
     [(''PROJECT_TYPE'', plain_field ''dropdown'' ''customfield_10611'' ''PROJECT_TYPE'' True),
      (''PROJECT_TYPE_FOLDER'',
         plain_field ''dropdown_nested'' ''customfield_10611'' ''PROJECT_TYPE_FOLDER'' True),
      (''FOLDER_NAME'', folder_name_field),
      (''WBS'', wbs_field),
      (''ENGAGEMENT_MANAGER'', plain_field ''reporter'' ''reporter'' ''ENGAGEMENT_MANAGER'' False)]"

definition data_security_mapping :: "string \<Rightarrow> string option" where
  "data_security_mapping =
     map_of [(''l0'', ''tagValues/281478635840395''),
             (''l1'', ''tagValues/281481147692528''),
             (''l3'', ''tagValues/281476741727885'')]"

definition env_mapping :: "string \<Rightarrow> string option" where
  "env_mapping =
     map_of [(''dev'', ''Development''), (''test'', ''Test''), (''prod'', ''Production'')]"

section \<open>Label formatting and identifiers\<close>

text \<open>
  \<open>str.lower()\<close> and \<open>str.upper()\<close> on ASCII letters, and the whitespace class
  \<open>\s\<close> of \<open>re\<close> within ASCII: tab to carriage return, the four separators
  \<open>0x1C\<close> to \<open>0x1F\<close>, and the space.
\<close>

definition py_lower :: "string \<Rightarrow> string" where
  "py_lower s =
     map (\<lambda>c. case map_of (zip ascii_uppercase ascii_lowercase) c of None \<Rightarrow> c | Some l \<Rightarrow> l) s"

definition py_upper :: "string \<Rightarrow> string" where
  "py_upper s =
     map (\<lambda>c. case map_of (zip ascii_lowercase ascii_uppercase) c of None \<Rightarrow> c | Some u \<Rightarrow> u) s"

definition is_space :: "char \<Rightarrow> bool" where
  "is_space c =
     (c \<in> set [CHR 0x09, CHR 0x0A, CHR 0x0B, CHR 0x0C, CHR 0x0D,
                CHR 0x1C, CHR 0x1D, CHR 0x1E, CHR 0x1F, CHR 0x20])"

text \<open>
  \<open>re.sub(r'\s+', '_', s)\<close>: each maximal run of whitespace becomes one underscore.
  The flag tells whether the previous character was whitespace.
\<close>

fun sub_whitespace :: "bool \<Rightarrow> string \<Rightarrow> string" where
  "sub_whitespace in_run [] = []"
| "sub_whitespace in_run (c # s) =
     (if is_space c then
        (if in_run then sub_whitespace True s else CHR ''_'' # sub_whitespace True s)
      else c # sub_whitespace False s)"

definition label_text :: "string \<Rightarrow> string" where
  "label_text s = sub_whitespace False (py_lower s)"

text \<open>\<open>format_for_label_system\<close>: the empty string for anything that is no string.\<close>

definition format_for_label_system :: "pyval \<Rightarrow> pyval" where
  "format_for_label_system v = (case v of PStr s \<Rightarrow> PStr (label_text s) | _ \<Rightarrow> PStr [])"

fun format_label_elements :: "string list \<Rightarrow> config \<Rightarrow> config" where
  "format_label_elements [] cfg = cfg"
| "format_label_elements (element # elements) cfg =
     format_label_elements elements
       (case cfg element of
          None \<Rightarrow> cfg
        | Some v \<Rightarrow> cfg(element \<mapsto> format_for_label_system v))"

definition ends_with :: "string \<Rightarrow> string \<Rightarrow> bool" where
  "ends_with p s = starts_with (rev p) (rev s)"

text \<open>
  \<open>_extract_folder_id\<close>: \<open>re.search(r"folders/(\d+)$", s)\<close> on a non-empty string.
  \<open>$\<close> stands at the end of the text or before its final newline, and the slash is
  no digit, so the group is the whole run of digits that ends there.
\<close>

definition extract_folder_id :: "string option \<Rightarrow> string option" where
  "extract_folder_id parent_folder_id_match =
     (case parent_folder_id_match of
        None \<Rightarrow> None
      | Some s \<Rightarrow>
          (if s = [] then None
           else
             (let body = (if last s = CHR 0x0A then butlast s else s);
                  ds = rev (takeWhile is_digit (rev body));
                  before = rev (dropWhile is_digit (rev body))
              in if ds \<noteq> [] \<and> ends_with ''folders/'' before
                 then Some (''folders/'' @ ds) else None)))"

text \<open>The truth value of an \<open>Optional[str]\<close>: \<open>None\<close> and the empty string are false.\<close>

definition opt_truthy :: "string option \<Rightarrow> bool" where
  "opt_truthy r = (case r of None \<Rightarrow> False | Some s \<Rightarrow> s \<noteq> [])"

text \<open>\<open>except Exception\<close> does not catch a \<open>BaseException\<close>.\<close>

definition except_Exception :: "(exn \<Rightarrow> exn) \<Rightarrow> exn \<Rightarrow> exn" where
  "except_Exception handler e = (case e of PyBaseException m \<Rightarrow> e | _ \<Rightarrow> handler e)"

text \<open>\<open>for x in v\<close>.\<close>

fun py_iter :: "pyval \<Rightarrow> exn + pyval list" where
  "py_iter (PList xs) = Inr xs"
| "py_iter (PStr s) = Inr (map (\<lambda>c. PStr [c]) s)"
| "py_iter (PDict d) = Inr (map (\<lambda>(k, v). PStr k) d)"
| "py_iter v = Inl (TypeError ''object is not iterable'')"

text \<open>\<open>v.upper()\<close>.\<close>

fun py_upper_of :: "pyval \<Rightarrow> exn + string" where
  "py_upper_of (PStr s) = Inr (py_upper s)"
| "py_upper_of v = Inl (AttributeError ''object has no attribute upper'')"

section \<open>The project validator\<close>

text \<open>\<open>projects.py\<close>, class \<open>GcpProjectProvisioner\<close>.\<close>

definition elements_to_format :: "string list" where
  "elements_to_format =
     [''ENGAGEMENT_MANAGER'', ''PROJECT_NAME'', ''FOLDER_NAME'', ''WBS'', ''DATASECURITY'']"

definition validate_folder_existence :: "builtins \<Rightarrow> asset list \<Rightarrow> config \<Rightarrow> exn + unit" where
  "validate_folder_existence B assets cfg =
     (case cfg ''FOLDER_NAME'' of
        None \<Rightarrow> Inl (KeyError ''FOLDER_NAME'')
      | Some folder_name \<Rightarrow>
          (if \<not> opt_truthy (check_if_resource_exist (py_str B) assets folder_name FOLDER)
           then Inl (ValueError (''Parent folder '' @ quoted (py_str B folder_name)
                                  @ '' not found in the resource hierarchy.''))
           else Inr ()))"

definition dw_name :: "string \<Rightarrow> string \<Rightarrow> string" where
  "dw_name environment project_name = ''dw-'' @ environment @ ''-'' @ project_name"

definition validate_project_name_uniqueness ::
  "builtins \<Rightarrow> asset list \<Rightarrow> string list \<Rightarrow> pyval \<Rightarrow> pyval \<Rightarrow> exn + string list" where
  "validate_project_name_uniqueness B assets names project_name environment =
     (let dw_env_project_name = dw_name (py_str B environment) (py_str B project_name)
      in if opt_truthy
              (check_if_resource_exist (py_str B) assets (PStr dw_env_project_name) PROJECT)
         then Inl (ValueError (''Project '' @ quoted dw_env_project_name
                                @ '' exists already in the resource hierarchy.''))
         else Inr (names @ [dw_env_project_name]))"

text \<open>The loop of \<open>get_project_subfolder_id\<close> over the assets.\<close>

fun find_subfolder :: "asset list \<Rightarrow> string \<Rightarrow> string \<Rightarrow> string option" where
  "find_subfolder [] subfolder_name parent_folder_id = None"
| "find_subfolder (a # assets) subfolder_name parent_folder_id =
     (if asset_type a = FOLDER \<and> data_get_eq a ''displayName'' (PStr subfolder_name) then
        (if ancestors a \<noteq> [] \<and> parent_folder_id \<in> set (ancestors a) then Some (asset_name a)
         else if data_get_eq a ''parent'' (PStr parent_folder_id) then Some (asset_name a)
         else find_subfolder assets subfolder_name parent_folder_id)
      else find_subfolder assets subfolder_name parent_folder_id)"

definition get_project_subfolder_id ::
  "builtins \<Rightarrow> asset list \<Rightarrow> pyval \<Rightarrow> string \<Rightarrow> exn + string option" where
  "get_project_subfolder_id B assets parent_folder_name subfolder_name =
     (let parent_folder_id_match =
            check_if_resource_exist (py_str B) assets parent_folder_name FOLDER
      in if \<not> opt_truthy parent_folder_id_match then
           Inl (GcpProvisioningError
                  (''Parent folder '' @ quoted (py_str B parent_folder_name)
                   @ '' not found. Cannot search for subfolder '' @ quoted subfolder_name @ ''.''))
         else
           (case extract_folder_id parent_folder_id_match of
              None \<Rightarrow>
                Inl (GcpProvisioningError
                       (''Could not extract ID for parent folder ''
                        @ quoted (py_str B parent_folder_name)
                        @ ''. Cannot search for subfolder '' @ quoted subfolder_name @ ''.''))
            | Some parent_folder_id \<Rightarrow>
                Inr (find_subfolder assets subfolder_name parent_folder_id)))"

text \<open>\<open>self.env_mapping.get(environment)\<close>: a list or a dictionary cannot be hashed.\<close>

fun env_mapping_get :: "pyval \<Rightarrow> exn + string option" where
  "env_mapping_get (PStr s) = Inr (env_mapping s)"
| "env_mapping_get (PList xs) = Inl (TypeError ''unhashable type'')"
| "env_mapping_get (PDict d) = Inl (TypeError ''unhashable type'')"
| "env_mapping_get v = Inr None"

definition validate_environment_subfolder ::
  "builtins \<Rightarrow> asset list \<Rightarrow> config \<Rightarrow> pyval \<Rightarrow> pyval \<Rightarrow> exn + config" where
  "validate_environment_subfolder B assets cfg folder_name environment =
     (case env_mapping_get environment of
        Inl e \<Rightarrow> Inl e
      | Inr subfolder_to_find \<Rightarrow>
          (if \<not> opt_truthy subfolder_to_find then
             Inl (ValueError (''No folder mapping found for environment ''
                              @ quoted (py_str B environment) @ ''.''))
           else
             (case get_project_subfolder_id B assets folder_name (the subfolder_to_find) of
                Inl e \<Rightarrow> Inl e
              | Inr env_folder_id \<Rightarrow>
                  (if opt_truthy env_folder_id then
                     (case py_upper_of environment of
                        Inl e \<Rightarrow> Inl e
                      | Inr up \<Rightarrow>
                          Inr (cfg(''FOLDER_'' @ up \<mapsto>
                                 (case extract_folder_id env_folder_id of
                                    None \<Rightarrow> PNone
                                  | Some i \<Rightarrow> PStr i))))
                   else
                     Inl (ValueError (''Subfolder '' @ quoted (the subfolder_to_find)
                                      @ '' not found under ''
                                      @ quoted (py_str B folder_name) @ ''.''))))))"

text \<open>
  The loop of \<open>validate_folder_and_projects_name\<close>; it carries the configuration
  map and \<open>dw_env_project_name_list\<close>.
\<close>

fun validate_envs ::
  "builtins \<Rightarrow> asset list \<Rightarrow> config \<Rightarrow> string list \<Rightarrow> pyval \<Rightarrow> pyval list
     \<Rightarrow> exn + (config \<times> string list)" where
  "validate_envs B assets cfg names project_name [] = Inr (cfg, names)"
| "validate_envs B assets cfg names project_name (each_env # envs) =
     (case validate_project_name_uniqueness B assets names project_name each_env of
        Inl e \<Rightarrow> Inl e
      | Inr names' \<Rightarrow>
          (case cfg ''FOLDER_NAME'' of
             None \<Rightarrow> Inl (KeyError ''FOLDER_NAME'')
           | Some folder_name \<Rightarrow>
               (case validate_environment_subfolder B assets cfg folder_name each_env of
                  Inl e \<Rightarrow> Inl e
                | Inr cfg' \<Rightarrow> validate_envs B assets cfg' names' project_name envs)))"

definition names_check_handler :: "exn \<Rightarrow> exn" where
  "names_check_handler =
     except_Exception (\<lambda>e. GcpProvisioningError
       (''Validation error during folder/project name check: '' @ exn_str e))"

definition validate_folder_and_projects_name ::
  "builtins \<Rightarrow> asset list \<Rightarrow> config \<Rightarrow> exn + (config \<times> string list)" where
  "validate_folder_and_projects_name B assets cfg =
     (case
        (case validate_folder_existence B assets cfg of
           Inl e \<Rightarrow> Inl e
         | Inr u \<Rightarrow>
             (case cfg ''PROJECT_NAME'' of
                None \<Rightarrow> Inl (KeyError ''PROJECT_NAME'')
              | Some project_name \<Rightarrow>
                  (case cfg ''ENVIRONMENT'' of
                     None \<Rightarrow> Inl (KeyError ''ENVIRONMENT'')
                   | Some environment \<Rightarrow>
                       (case py_iter environment of
                          Inl e \<Rightarrow> Inl e
                        | Inr envs \<Rightarrow> validate_envs B assets cfg [] project_name envs))))
      of Inl e \<Rightarrow> Inl (names_check_handler e)
       | Inr r \<Rightarrow> Inr r)"

definition budget_key_error :: "builtins \<Rightarrow> pyval \<Rightarrow> string \<Rightarrow> exn" where
  "budget_key_error B env budget_key =
     ValueError (''The '' @ quoted (py_str B env) @ '' environment has no associated budget key (''
                 @ quoted budget_key
                 @ ''). Please ensure this information is included in the Jira request.'')"

fun budget_keys_loop :: "builtins \<Rightarrow> config \<Rightarrow> pyval list \<Rightarrow> exn + bool" where
  "budget_keys_loop B data [] = Inr True"
| "budget_keys_loop B data (env # env_list) =
     (case py_upper_of env of
        Inl e \<Rightarrow> Inl e
      | Inr up \<Rightarrow>
          (if data (''BUDGET_'' @ up) = None then Inl (budget_key_error B env (''BUDGET_'' @ up))
           else budget_keys_loop B data env_list))"

definition check_budget_keys :: "builtins \<Rightarrow> config \<Rightarrow> exn + bool" where
  "check_budget_keys B data =
     (if data = Map.empty then Inl (ValueError ''The config_data structure is empty.'')
      else
        (case data ''ENVIRONMENT'' of
           None \<Rightarrow>
             Inl (ValueError (''The '' @ quoted ''ENVIRONMENT''
                              @ '' field in config_data is empty or missing.''))
         | Some env_list \<Rightarrow>
             (if \<not> py_truthy env_list then
                Inl (ValueError (''The '' @ quoted ''ENVIRONMENT''
                                 @ '' field in config_data is empty or missing.''))
              else
                (case py_iter env_list of
                   Inl e \<Rightarrow> Inl e
                 | Inr envs \<Rightarrow> budget_keys_loop B data envs))))"

definition project_validation_handler :: "exn \<Rightarrow> exn" where
  "project_validation_handler =
     except_Exception (\<lambda>e. GcpProvisioningError
       (''Project provisioning validation error: '' @ exn_str e))"

text \<open>
  \<open>GcpProjectProvisioner._validate_jira_request\<close>. A success gives the configuration
  map and \<open>dw_env_project_name_list\<close> as the synthesizer will read them.
\<close>

definition validate_project_request ::
  "builtins \<Rightarrow> asset list \<Rightarrow> config \<Rightarrow> exn + (config \<times> string list)" where
  "validate_project_request B assets cfg =
     (case validate_folder_and_projects_name B assets
             (format_label_elements elements_to_format cfg) of
        Inl e \<Rightarrow> Inl (project_validation_handler e)
      | Inr (cfg', names) \<Rightarrow>
          (case check_budget_keys B cfg' of
             Inl e \<Rightarrow> Inl (project_validation_handler e)
           | Inr ok \<Rightarrow> Inr (cfg', names)))"

section \<open>The project synthesizer\<close>

text \<open>
  \<open>base.py\<close>, \<open>encode_yaml_file\<close>, and \<open>projects.py\<close>, the documents and
  \<open>_built_terraform_yamls\<close>. A document is the dictionary the code builds.
\<close>

definition encode_yaml_file :: "builtins \<Rightarrow> pyval \<Rightarrow> string" where
  "encode_yaml_file B yaml_data = b64encode B (yaml_dump B yaml_data)"

text \<open>\<open>self.config_data[k]\<close>.\<close>

definition config_item :: "config \<Rightarrow> string \<Rightarrow> exn + pyval" where
  "config_item cfg k = (case cfg k of None \<Rightarrow> Inl (KeyError k) | Some v \<Rightarrow> Inr v)"

text \<open>\<open>env.upper()\<close> for the result of \<open>extract_dw_environment\<close>.\<close>

definition env_upper :: "string option \<Rightarrow> exn + string" where
  "env_upper env =
     (case env of
        None \<Rightarrow> Inl (AttributeError ''NoneType object has no attribute upper'')
      | Some e \<Rightarrow> Inr (py_upper e))"

definition build_budget_terraform_yaml ::
  "config \<Rightarrow> string \<Rightarrow> string option \<Rightarrow> exn + pyval" where
  "build_budget_terraform_yaml cfg dw_env_project_name env =
     (case env_upper env of
        Inl e \<Rightarrow> Inl e
      | Inr up \<Rightarrow>
          (case config_item cfg (''BUDGET_'' @ up) of
             Inl e \<Rightarrow> Inl e
           | Inr units \<Rightarrow>
               Inr (PDict
                 [(''display_name'', PStr (''budget for '' @ dw_env_project_name)),
                  (''amount'', PDict [(''units'', units)]),
                  (''filter'', PDict
                     [(''period'', PDict [(''calendar'', PStr ''MONTH'')]),
                      (''projects'', PList [PStr dw_env_project_name])]),
                  (''threshold_rules'',
                     PList [PDict [(''percent'', PFloat (1 / 2))],
                            PDict [(''percent'', PFloat (3 / 4))]]),
                  (''update_rules'', PDict
                     [(''default'', PDict
                        [(''disable_default_iam_recipients'', PBool True),
                         (''monitoring_notification_channels'',
                            PList [PStr ''billing-default''])])])])))"

definition build_project_terraform_yaml ::
  "config \<Rightarrow> string \<Rightarrow> string option \<Rightarrow> string \<Rightarrow> exn + pyval" where
  "build_project_terraform_yaml cfg dw_env_project_name env data_type_tag =
     (case env_upper env of
        Inl e \<Rightarrow> Inl e
      | Inr up \<Rightarrow>
      (case config_item cfg (''FOLDER_'' @ up) of Inl e \<Rightarrow> Inl e | Inr parent \<Rightarrow>
      (case config_item cfg ''PROJECT_TYPE'' of Inl e \<Rightarrow> Inl e | Inr project_type \<Rightarrow>
      (case config_item cfg ''PROJECT_TYPE_FOLDER'' of Inl e \<Rightarrow> Inl e | Inr sub_type \<Rightarrow>
      (case config_item cfg ''FOLDER_NAME'' of Inl e \<Rightarrow> Inl e | Inr folder \<Rightarrow>
      (case config_item cfg ''DATASECURITY'' of Inl e \<Rightarrow> Inl e | Inr security \<Rightarrow>
      (case config_item cfg ''ENGAGEMENT_MANAGER'' of Inl e \<Rightarrow> Inl e | Inr manager \<Rightarrow>
      (case config_item cfg ''WBS'' of Inl e \<Rightarrow> Inl e | Inr wbs \<Rightarrow>
         Inr (PDict
           [(''parent'', parent),
            (''shared_vpc_service_config'', PDict
               [(''host_project'', PStr (the env @ ''-spoke-0'')),
                (''network_users'', PList [PStr ''gcp-devops''])]),
            (''billing_budgets'', PList [PStr dw_env_project_name]),
            (''tag_bindings'', PDict [(''data-type'', PStr data_type_tag)]),
            (''labels'', PDict
               [(''environment'', PStr (the env)),
                (''project_type'', project_type),
                (''project_sub_type'', sub_type),
                (''project_name_folder'', folder),
                (''project_name'', PStr dw_env_project_name),
                (''data_security'', security),
                (''engagement_manager'', manager),
                (''wbs'', wbs)])])))))))))"

text \<open>
  \<open>BUDGET_LIMIT = os.getenv('BUDGET_LIMIT', 150)\<close>: the limit is a number, and
  \<open>150\<close> where the environment sets none. \<open>budget_dev < BUDGET_LIMIT\<close> is defined
  for a number on the left and raises \<open>TypeError\<close> for anything else.
\<close>

definition default_budget_limit :: rat where
  "default_budget_limit = 150"

fun py_number :: "pyval \<Rightarrow> rat option" where
  "py_number (PInt i) = Some (of_int i)"
| "py_number (PFloat r) = Some r"
| "py_number (PBool b) = Some (if b then 1 else 0)"
| "py_number v = None"

definition py_less_than :: "pyval \<Rightarrow> rat \<Rightarrow> exn + bool" where
  "py_less_than v limit =
     (case py_number v of
        None \<Rightarrow> Inl (TypeError ''< not supported between these instances'')
      | Some r \<Rightarrow> Inr (r < limit))"

definition allow_autoapprove_on_dev_budget_limit ::
  "rat \<Rightarrow> pyval \<Rightarrow> pyval \<Rightarrow> exn + bool" where
  "allow_autoapprove_on_dev_budget_limit budget_limit data_security budget_dev =
     (if data_security = PStr ''l0'' then
        (if budget_dev \<noteq> PNone then py_less_than budget_dev budget_limit else Inr False)
      else Inr False)"

record file_entry =
  file_content :: string
  commit_message :: string
  file_path :: string

record publish_unit =
  pr_title :: string
  unit_env :: "string option"
  data_type_tag :: string
  new_branch_name :: string
  yaml_content_encoded :: "(string \<times> file_entry) list"
  autoapprove :: pyval

text \<open>\<open>d[k] = v\<close> on a dictionary kept as the list of its items.\<close>

fun dict_set :: "'k \<Rightarrow> 'v \<Rightarrow> ('k \<times> 'v) list \<Rightarrow> ('k \<times> 'v) list" where
  "dict_set k v [] = [(k, v)]"
| "dict_set k v ((k', v') # items) =
     (if k' = k then (k, v) # items else (k', v') # dict_set k v items)"

definition issue_key_or_na :: "builtins \<Rightarrow> config \<Rightarrow> string" where
  "issue_key_or_na B cfg = (case cfg ''ISSUE_KEY'' of None \<Rightarrow> ''N/A'' | Some v \<Rightarrow> py_str B v)"

definition yaml_entry :: "builtins \<Rightarrow> config \<Rightarrow> string \<Rightarrow> string \<Rightarrow> pyval \<Rightarrow> file_entry" where
  "yaml_entry B cfg type_file dw_env_project_name document =
     \<lparr>file_content = encode_yaml_file B document,
      commit_message = ''['' @ issue_key_or_na B cfg @ ''] Add configuration '' @ type_file
                       @ '' for '' @ dw_env_project_name @ '' project.'',
      file_path = ''data/'' @ type_file @ ''s/'' @ dw_env_project_name @ ''.yaml''\<rparr>"

text \<open>
  The auto-approval decision at the end of the loop body: \<open>and\<close> does not evaluate
  the policy function for a unit whose environment is not \<open>dev\<close>.
\<close>

definition decide_autoapprove :: "rat \<Rightarrow> config \<Rightarrow> string option \<Rightarrow> exn + bool" where
  "decide_autoapprove budget_limit cfg env =
     (if env = Some ''dev'' then
        (case config_item cfg ''DATASECURITY'' of
           Inl e \<Rightarrow> Inl e
         | Inr data_security \<Rightarrow>
             allow_autoapprove_on_dev_budget_limit budget_limit data_security
               (case cfg ''BUDGET_DEV'' of None \<Rightarrow> PFloat 0 | Some v \<Rightarrow> v))
      else Inr False)"

text \<open>The body of the loop of \<open>_built_terraform_yamls\<close> for one project name.\<close>

definition build_unit ::
  "builtins \<Rightarrow> rat \<Rightarrow> config \<Rightarrow> string \<Rightarrow> string \<Rightarrow> string \<Rightarrow> exn + publish_unit" where
  "build_unit B budget_limit cfg branch tag dw_env_project_name =
     (let env = extract_dw_environment dw_env_project_name in
      case build_budget_terraform_yaml cfg dw_env_project_name env of
        Inl e \<Rightarrow> Inl e
      | Inr budget \<Rightarrow>
      (case build_project_terraform_yaml cfg dw_env_project_name env tag of
        Inl e \<Rightarrow> Inl e
      | Inr project \<Rightarrow>
      (case decide_autoapprove budget_limit cfg env of
        Inl e \<Rightarrow> Inl e
      | Inr approve \<Rightarrow>
          Inr \<lparr>pr_title = ''['' @ issue_key_or_na B cfg @ ''] PR for project creation: ''
                           @ dw_env_project_name,
               unit_env = env,
               data_type_tag = tag,
               new_branch_name = branch,
               yaml_content_encoded =
                 [(''budget'', yaml_entry B cfg ''budget'' dw_env_project_name budget),
                  (''project'', yaml_entry B cfg ''project'' dw_env_project_name project)],
               autoapprove = PBool approve\<rparr>)))"

fun build_units ::
  "builtins \<Rightarrow> rat \<Rightarrow> config \<Rightarrow> string \<Rightarrow> string \<Rightarrow> (string \<times> publish_unit) list
     \<Rightarrow> string list \<Rightarrow> exn + (string \<times> publish_unit) list" where
  "build_units B budget_limit cfg branch tag payload [] = Inr payload"
| "build_units B budget_limit cfg branch tag payload (dw_env_project_name # names) =
     (case build_unit B budget_limit cfg branch tag dw_env_project_name of
        Inl e \<Rightarrow> Inl e
      | Inr u \<Rightarrow>
          build_units B budget_limit cfg branch tag
            (dict_set dw_env_project_name u payload) names)"

text \<open>\<open>data_security_mapping[self.config_data["DATASECURITY"]]\<close>.\<close>

fun data_security_tag :: "builtins \<Rightarrow> pyval \<Rightarrow> exn + string" where
  "data_security_tag B (PStr s) =
     (case data_security_mapping s of None \<Rightarrow> Inl (KeyError s) | Some t \<Rightarrow> Inr t)"
| "data_security_tag B (PList xs) = Inl (TypeError ''unhashable type'')"
| "data_security_tag B (PDict d) = Inl (TypeError ''unhashable type'')"
| "data_security_tag B v = Inl (KeyError (py_repr B v))"

definition synthesis_handler :: "exn \<Rightarrow> exn" where
  "synthesis_handler =
     except_Exception (\<lambda>e. GcpProvisioningError
       (''Failed to build Terraform YAMLs: '' @ exn_str e))"

text \<open>
  \<open>GcpProjectProvisioner._built_terraform_yamls\<close>, from the configuration map and
  \<open>dw_env_project_name_list\<close> to \<open>github_payload\<close>.
\<close>

definition built_project_yamls ::
  "builtins \<Rightarrow> rat \<Rightarrow> config \<Rightarrow> string list \<Rightarrow> exn + (string \<times> publish_unit) list" where
  "built_project_yamls B budget_limit cfg names =
     (case
        (case config_item cfg ''ISSUE_KEY'' of
           Inl e \<Rightarrow> Inl e
         | Inr issue_key \<Rightarrow>
             (case config_item cfg ''DATASECURITY'' of
                Inl e \<Rightarrow> Inl e
              | Inr data_security \<Rightarrow>
                  (case data_security_tag B data_security of
                     Inl e \<Rightarrow> Inl e
                   | Inr tag \<Rightarrow>
                       build_units B budget_limit cfg (''ticket-'' @ py_str B issue_key)
                         tag [] names)))
      of Inl e \<Rightarrow> Inl (synthesis_handler e)
       | Inr payload \<Rightarrow> Inr payload)"

text \<open>
  The right-hand side of the auto-approval policy as the specification words it: the
  dev budget is in the configuration map, is a number, and lies below the limit.
\<close>

definition dev_budget_below :: "rat \<Rightarrow> config \<Rightarrow> bool" where
  "dev_budget_below budget_limit cfg =
     (case cfg ''BUDGET_DEV'' of
        None \<Rightarrow> False
      | Some v \<Rightarrow> (case py_number v of None \<Rightarrow> False | Some r \<Rightarrow> r < budget_limit))"

section \<open>The source-control publisher\<close>

text \<open>
  \<open>github.py\<close>. What the GitHub API answers is given from outside: a request fails
  without a response, or its response has an error status, with the text of the
  \<open>HTTPError\<close> that \<open>raise_for_status\<close> raises, or it succeeds with a JSON body.
\<close>

datatype http_outcome =
    ConnectionError string
  | HttpError nat string
  | Ok pyval

text \<open>\<open>str.strip()\<close>.\<close>

definition py_strip :: "string \<Rightarrow> string" where
  "py_strip s = rev (dropWhile is_space (rev (dropWhile is_space s)))"

definition file_exists_error :: "string \<Rightarrow> string \<Rightarrow> exn" where
  "file_exists_error fpath branch =
     FileExistsError (''File '' @ quoted fpath @ '' already exists in branch ''
                      @ quoted branch @ '' with different content.'')"

text \<open>
  \<open>compare_existing_file\<close>: the \<open>except\<close> clause swallows a failed request and
  nothing else; the value returned is not used by the caller.
\<close>

fun swallow_request_exception :: "exn + unit \<Rightarrow> exn + unit" where
  "swallow_request_exception (Inl (RequestException m)) = Inr ()"
| "swallow_request_exception r = r"

definition compare_existing_file ::
  "builtins \<Rightarrow> http_outcome \<Rightarrow> string \<Rightarrow> string \<Rightarrow> string \<Rightarrow> exn + unit" where
  "compare_existing_file B get_outcome branch content_encoded fpath =
     swallow_request_exception
       (case get_outcome of
          ConnectionError m \<Rightarrow> Inl (RequestException m)
        | HttpError status m \<Rightarrow> Inl (RequestException m)
        | Ok existing_content_data \<Rightarrow>
            (case py_getitem existing_content_data ''content'' of
               Inl e \<Rightarrow> Inl e
             | Inr (PStr content) \<Rightarrow>
                 (case b64decode_text B content of
                    Inl e \<Rightarrow> Inl e
                  | Inr existing_content_decoded \<Rightarrow>
                      (case b64decode_text B content_encoded of
                         Inl e \<Rightarrow> Inl e
                       | Inr new_content \<Rightarrow>
                           (if py_strip existing_content_decoded = py_strip new_content
                            then Inr ()
                            else Inl (file_exists_error fpath branch))))
             | Inr v \<Rightarrow> Inl (TypeError ''argument should be a bytes-like object or ASCII string'')))"

text \<open>
  \<open>commit_file_in_branch\<close>. An exception raised by \<open>compare_existing_file\<close> leaves
  the handler it was called from and is not seen by the \<open>except Exception\<close> clause
  next to it.
\<close>

definition commit_file_in_branch ::
  "builtins \<Rightarrow> http_outcome \<Rightarrow> http_outcome \<Rightarrow> string \<Rightarrow> string \<Rightarrow> string \<Rightarrow> string
     \<Rightarrow> exn + unit" where
  "commit_file_in_branch B put_outcome get_outcome fpath message content_encoded
       branch =
     (case put_outcome of
        Ok body \<Rightarrow> Inr ()
      | HttpError status m \<Rightarrow>
          (if status = 422
           then compare_existing_file B get_outcome branch content_encoded fpath
           else Inl (RequestException (''Error during GitHub API request: '' @ m)))
      | ConnectionError m \<Rightarrow>
          Inl (RequestException (''Error during GitHub API request: '' @ m)))"

section \<open>Publishing the payload\<close>

text \<open>
  \<open>github.py\<close>, \<open>_commit_new_file\<close> and \<open>_create_pull_request_logic\<close>, and
  \<open>app_manager.py\<close>, \<open>push_to_github\<close>. The answers of the GitHub API are looked
  up by the path of the file and by the title of the pull request.
\<close>

record file_answers =
  get_sha :: http_outcome
  post_ref :: http_outcome
  put_contents :: http_outcome
  get_contents :: http_outcome

record pull_answers =
  post_pull :: http_outcome
  put_merge :: http_outcome

record github_world =
  answers_for_file :: "string \<Rightarrow> file_answers"
  answers_for_pull :: "string \<Rightarrow> pull_answers"

text \<open>\<open>get_latest_sha_from_branch\<close> turns every failure into a \<open>BaseException\<close>.\<close>

definition get_latest_sha_from_branch :: "file_answers \<Rightarrow> exn + pyval" where
  "get_latest_sha_from_branch fa =
     (case get_sha fa of
        Ok base_branch_data \<Rightarrow>
          (case py_getitem base_branch_data ''object'' of
             Inl e \<Rightarrow> Inl (PyBaseException ''Check if file exist'')
           | Inr ob \<Rightarrow>
               (case py_getitem ob ''sha'' of
                  Inl e \<Rightarrow> Inl (PyBaseException ''Check if file exist'')
                | Inr sha \<Rightarrow> Inr sha))
      | _ \<Rightarrow> Inl (PyBaseException ''Check if file exist''))"

fun commit_handler :: "exn \<Rightarrow> exn" where
  "commit_handler (RequestException m) =
     RequestException (''Error during GitHub API request (file commit): '' @ m)"
| "commit_handler (KeyError k) =
     KeyError (''Error accessing JSON data (file commit): '' @ quoted k)"
| "commit_handler (PyBaseException m) = PyBaseException m"
| "commit_handler e =
     PyException (''An unexpected error occurred during file commit: '' @ exn_str e)"

text \<open>
  \<open>_commit_new_file\<close>. The log line slices the SHA, which fails for a value that is
  neither a string nor a list; \<open>create_branch\<close> does not look at the status of its
  response.
\<close>

definition commit_new_file ::
  "builtins \<Rightarrow> file_answers \<Rightarrow> string \<Rightarrow> string \<Rightarrow> string \<Rightarrow> string \<Rightarrow> exn + unit" where
  "commit_new_file B fa fpath message content_encoded branch =
     (case get_latest_sha_from_branch fa of
        Inl e \<Rightarrow> Inl e
      | Inr base_sha \<Rightarrow>
          (case
             (case base_sha of
                PStr s \<Rightarrow> Inr ()
              | PList xs \<Rightarrow> Inr ()
              | _ \<Rightarrow> Inl (TypeError ''object is not subscriptable''))
           of Inl e \<Rightarrow> Inl (commit_handler e)
            | Inr u \<Rightarrow>
                (case post_ref fa of
                   ConnectionError m \<Rightarrow> Inl (commit_handler (RequestException m))
                 | _ \<Rightarrow>
                     (case commit_file_in_branch B (put_contents fa) (get_contents fa)
                             fpath message content_encoded branch of
                        Inl e \<Rightarrow> Inl (commit_handler e)
                      | Inr u \<Rightarrow> Inr ()))))"

fun commit_files ::
  "builtins \<Rightarrow> github_world \<Rightarrow> (string \<times> file_entry) list \<Rightarrow> string \<Rightarrow> exn + unit" where
  "commit_files B W [] branch = Inr ()"
| "commit_files B W ((file_type_key, file_data) # entries) branch =
     (case commit_new_file B (answers_for_file W (file_path file_data)) (file_path file_data)
             (commit_message file_data) (file_content file_data) branch of
        Inl e \<Rightarrow> Inl e
      | Inr u \<Rightarrow> commit_files B W entries branch)"

text \<open>
  \<open>_create_pull_request_logic\<close> catches every \<open>Exception\<close> and then returns
  \<open>None\<close>: a failed request, a body without \<open>html_url\<close>, a body without
  \<open>number\<close> when auto-merge is asked for, and the unbound \<open>response\<close> that
  \<open>enable_auto_merge\<close> reads after a request that got no response.
\<close>

definition create_pull_request_logic :: "pull_answers \<Rightarrow> pyval \<Rightarrow> pyval" where
  "create_pull_request_logic pa auto_merge =
     (case post_pull pa of
        Ok (PDict d) \<Rightarrow>
          (case map_of d ''html_url'' of
             None \<Rightarrow> PNone
           | Some url \<Rightarrow>
               (if py_truthy auto_merge \<and>
                   (map_of d ''number'' = None \<or>
                    (case put_merge pa of ConnectionError m \<Rightarrow> True | _ \<Rightarrow> False))
                then PNone else url))
      | _ \<Rightarrow> PNone)"

text \<open>
  The comment and the transition that follow the pull request of one unit, inside
  the loop of \<open>push_to_github\<close>.
\<close>

definition pr_events :: "builtins \<Rightarrow> github_world \<Rightarrow> pyval \<Rightarrow> publish_unit \<Rightarrow> event list" where
  "pr_events B W jira_id u =
     (let pr_url = create_pull_request_logic (answers_for_pull W (pr_title u)) (autoapprove u)
      in if autoapprove u = PBool True then
           [Comment jira_id (''Created and auto-approved PR at '' @ py_str B pr_url) ''info'',
            Transition jira_id ''Set as done'']
         else
           [Comment jira_id (''Created a PR that needs manual approval at '' @ py_str B pr_url)
              ''manual'',
            Transition jira_id ''Set as to be reviewed''])"

fun push_units ::
  "builtins \<Rightarrow> github_world \<Rightarrow> pyval \<Rightarrow> publish_unit list \<Rightarrow> event list \<times> (exn + unit)" where
  "push_units B W jira_id [] = ([], Inr ())"
| "push_units B W jira_id (u # units) =
     (case commit_files B W (yaml_content_encoded u) (new_branch_name u) of
        Inl e \<Rightarrow> ([], Inl e)
      | Inr done \<Rightarrow>
          (case push_units B W jira_id units of
             (evs, r) \<Rightarrow> (pr_events B W jira_id u @ evs, r)))"

definition blocked_events :: "pyval \<Rightarrow> string \<Rightarrow> event list" where
  "blocked_events jira_id msg =
     [Comment jira_id msg ''error'', Transition jira_id ''Set as blocked'']"

text \<open>The two \<open>except\<close> clauses of \<open>push_to_github\<close>; both raise the exception again.\<close>

fun push_handler :: "pyval \<Rightarrow> exn \<Rightarrow> event list" where
  "push_handler jira_id (GcpProvisioningError m) = blocked_events jira_id m"
| "push_handler jira_id (PyBaseException m) = []"
| "push_handler jira_id e =
     blocked_events jira_id (''An unexpected error occurred during GitHub push: '' @ exn_str e)"

definition push_to_github ::
  "builtins \<Rightarrow> github_world option \<Rightarrow> pyval \<Rightarrow> (string \<times> publish_unit) list
     \<Rightarrow> event list \<times> (exn + unit)" where
  "push_to_github B github_manager jira_id payload =
     (case github_manager of
        None \<Rightarrow>
          (push_handler jira_id (GcpProvisioningError ''GitHub manager not initialized.''),
           Inl (GcpProvisioningError ''GitHub manager not initialized.''))
      | Some W \<Rightarrow>
          (case push_units B W jira_id (map snd payload) of
             (evs, Inl e) \<Rightarrow> (evs @ push_handler jira_id e, Inl e)
           | (evs, Inr done) \<Rightarrow> (evs, Inr ())))"

text \<open>
  A terminal pair on the ticket: a comment directly followed by one of the three
  transitions that close the processing of a request.
\<close>

definition terminal_transition :: "string \<Rightarrow> bool" where
  "terminal_transition t =
     (t = ''Set as done'' \<or> t = ''Set as to be reviewed'' \<or> t = ''Set as blocked'')"

fun terminal_pairs :: "event list \<Rightarrow> nat" where
  "terminal_pairs (Comment i msg kind # Transition j t # evs) =
     (if terminal_transition t then 1 else 0) + terminal_pairs evs"
| "terminal_pairs (ev # evs) = terminal_pairs evs"
| "terminal_pairs [] = 0"

section \<open>The folder validator\<close>

text \<open>\<open>folders.py\<close>, class \<open>GcpFolderProvisioner\<close>.\<close>

definition validate_folder_name_uniqueness ::
  "builtins \<Rightarrow> asset list \<Rightarrow> config \<Rightarrow> exn + unit" where
  "validate_folder_name_uniqueness B assets cfg =
     (case cfg ''FOLDER_NAME'' of
        None \<Rightarrow> Inl (KeyError ''FOLDER_NAME'')
      | Some folder_name \<Rightarrow>
          (if opt_truthy (check_if_resource_exist (py_str B) assets folder_name FOLDER)
           then Inl (ValueError (''Folder '' @ quoted (py_str B folder_name)
                                  @ '' exists already in the resource hierarchy.''))
           else Inr ()))"

definition extract_project_type_folder_name ::
  "builtins \<Rightarrow> asset list \<Rightarrow> config \<Rightarrow> exn + string" where
  "extract_project_type_folder_name B assets cfg =
     (case cfg ''PROJECT_TYPE_FOLDER'' of
        None \<Rightarrow> Inl (KeyError ''PROJECT_TYPE_FOLDER'')
      | Some folder_name \<Rightarrow>
          (let project_type_folder_name =
                 extract_folder_id (check_if_resource_exist (py_str B) assets folder_name FOLDER)
           in if \<not> opt_truthy project_type_folder_name then
                Inl (GcpProvisioningError
                       (''Parent folder '' @ quoted (py_str B folder_name)
                        @ '' does not exist in the resource hierarchy. Cannot create sub-folder.''))
              else Inr (the project_type_folder_name)))"

fun folder_validation_handler :: "exn \<Rightarrow> exn" where
  "folder_validation_handler (GcpProvisioningError m) = GcpProvisioningError m"
| "folder_validation_handler (ValueError m) = GcpProvisioningError (''Validation error: '' @ m)"
| "folder_validation_handler (PyBaseException m) = PyBaseException m"
| "folder_validation_handler e =
     GcpProvisioningError (''An unexpected error occurred during validation: '' @ exn_str e)"

text \<open>\<open>GcpFolderProvisioner._validate_jira_request\<close>.\<close>

definition validate_folder_request :: "builtins \<Rightarrow> asset list \<Rightarrow> config \<Rightarrow> exn + config" where
  "validate_folder_request B assets cfg =
     (case validate_folder_name_uniqueness B assets cfg of
        Inl e \<Rightarrow> Inl (folder_validation_handler e)
      | Inr u \<Rightarrow>
          (case extract_project_type_folder_name B assets cfg of
             Inl e \<Rightarrow> Inl (folder_validation_handler e)
           | Inr parent_folder_id \<Rightarrow> Inr (cfg(''PARENT_FOLDER_ID'' \<mapsto> PStr parent_folder_id))))"

section \<open>The folder synthesizer and the request summaries\<close>

text \<open>
  \<open>folders.py\<close>, \<open>_built_terraform_yamls\<close>. The unit of a folder has no environment
  and no tag; its key in \<open>github_payload\<close> is the folder name.
\<close>

definition build_project_folder_terraform_yaml :: "config \<Rightarrow> pyval \<Rightarrow> exn + pyval" where
  "build_project_folder_terraform_yaml cfg folder_parent_id =
     (case config_item cfg ''FOLDER_NAME'' of Inl e \<Rightarrow> Inl e | Inr folder \<Rightarrow>
     (case config_item cfg ''PROJECT_TYPE'' of Inl e \<Rightarrow> Inl e | Inr project_type \<Rightarrow>
     (case config_item cfg ''PROJECT_TYPE_FOLDER'' of Inl e \<Rightarrow> Inl e | Inr sub_type \<Rightarrow>
        Inr (PDict
          [(''parent'', folder_parent_id),
           (''name'', folder),
           (''labels'', PDict
              [(''project_type'', format_for_label_system project_type),
               (''project_sub_type'', format_for_label_system sub_type),
               (''project_name_folder'', format_for_label_system folder)])]))))"

definition issue_key_or_none :: "builtins \<Rightarrow> config \<Rightarrow> string" where
  "issue_key_or_none B cfg = (case cfg ''ISSUE_KEY'' of None \<Rightarrow> ''None'' | Some v \<Rightarrow> py_str B v)"

definition built_folder_yamls ::
  "builtins \<Rightarrow> config \<Rightarrow> exn + (string \<times> publish_unit) list" where
  "built_folder_yamls B cfg =
     (let parent_folder_id = (case cfg ''PARENT_FOLDER_ID'' of None \<Rightarrow> PNone | Some v \<Rightarrow> v)
      in if \<not> py_truthy parent_folder_id then
           Inl (GcpProvisioningError
                  ''Parent folder ID is missing in config_data. Cannot build Terraform YAMLs.'')
         else
           (case build_project_folder_terraform_yaml cfg parent_folder_id of
              Inl e \<Rightarrow> Inl e
            | Inr document \<Rightarrow>
                (case config_item cfg ''FOLDER_NAME'' of
                   Inl e \<Rightarrow> Inl e
                 | Inr folder \<Rightarrow>
                     (case folder of
                        PList xs \<Rightarrow> Inl (TypeError ''unhashable type'')
                      | PDict d \<Rightarrow> Inl (TypeError ''unhashable type'')
                      | _ \<Rightarrow>
                         (let label = py_str B (format_for_label_system folder) in
                          Inr [(py_str B folder,
                                \<lparr>pr_title = ''feat: GCP Folder '' @ quoted (py_str B folder)
                                              @ '' - Jira '' @ issue_key_or_none B cfg,
                                 unit_env = None,
                                 data_type_tag = [],
                                 new_branch_name = ''feature/jira-'' @ issue_key_or_none B cfg
                                                   @ ''-folder-'' @ label,
                                 yaml_content_encoded =
                                   [(''folder_yaml'',
                                     \<lparr>file_content = encode_yaml_file B document,
                                      commit_message = ''feat: Add GCP folder ''
                                        @ quoted (py_str B folder) @ '' via Jira ''
                                        @ issue_key_or_none B cfg,
                                      file_path = ''gcp/folders/'' @ label @ ''/folder.yaml''\<rparr>)],
                                 autoapprove =
                                   (case cfg ''AUTO_APPROVE'' of
                                      None \<Rightarrow> PBool False
                                    | Some v \<Rightarrow> v)\<rparr>)])))))"

text \<open>
  \<open>_get_request_comment_message\<close> of both provisioners; the pictographs that decorate
  the lines are left out.
\<close>

definition config_or_na :: "builtins \<Rightarrow> config \<Rightarrow> string \<Rightarrow> string" where
  "config_or_na B cfg k = (case cfg k of None \<Rightarrow> ''N/A'' | Some v \<Rightarrow> py_str B v)"

definition summary_head :: "builtins \<Rightarrow> config \<Rightarrow> string list" where
  "summary_head B cfg =
     [''*Jira Issue:* '' @ config_or_na B cfg ''ISSUE_KEY'',
      ''*Target Folder:* '' @ config_or_na B cfg ''FOLDER_NAME'',
      ''*Project Type:* '' @ config_or_na B cfg ''PROJECT_TYPE'',
      ''*Project Type Folder:* '' @ config_or_na B cfg ''PROJECT_TYPE_FOLDER'']"

definition folder_comment_message :: "builtins \<Rightarrow> config \<Rightarrow> string" where
  "folder_comment_message B cfg = join [CHR 0x0A] (summary_head B cfg)"

fun environment_details :: "builtins \<Rightarrow> config \<Rightarrow> string list \<Rightarrow> exn + string list" where
  "environment_details B cfg [] = Inr []"
| "environment_details B cfg (dw_env_project_name # names) =
     (case env_upper (extract_dw_environment dw_env_project_name) of
        Inl e \<Rightarrow> Inl e
      | Inr up \<Rightarrow>
          (case environment_details B cfg names of
             Inl e \<Rightarrow> Inl e
           | Inr lines \<Rightarrow>
               Inr ((''- *'' @ up @ ''*: Name: `'' @ dw_env_project_name
                     @ ''`, Budget (euros): `'' @ config_or_na B cfg (''BUDGET_'' @ up) @ ''`'')
                    # lines)))"

definition project_comment_message :: "builtins \<Rightarrow> config \<Rightarrow> string list \<Rightarrow> exn + string" where
  "project_comment_message B cfg names =
     (case environment_details B cfg names of
        Inl e \<Rightarrow> Inl e
      | Inr lines \<Rightarrow>
          Inr (join [CHR 0x0A]
                 (summary_head B cfg
                  @ [''*Data Security Level:* '' @ config_or_na B cfg ''DATASECURITY'',
                     ''*Target Environments:*'']
                  @ lines)))"

section \<open>The orchestrator\<close>

text \<open>
  \<open>app_manager.py\<close> and \<open>main.py\<close>. A request is its HTTP method and the JSON body
  that \<open>get_json(silent=True)\<close> returns, \<open>None\<close> when the body is no JSON. The
  world of a request is the answer of the asset listing, the \<open>DEBUG\<close> flag, the
  table \<open>github_configs\<close> (\<open>configs/github\<close> is not part of the sources; an entry is
  the token, the owner and the name of the repository), the answers of GitHub and
  the \<open>BUDGET_LIMIT\<close>. Jira accepts every comment and every transition. The response
  is its status code, or the exception that leaves the function.
\<close>

record request =
  req_method :: string
  req_json :: pyval

record world =
  asset_listing :: listing
  debug :: bool
  github_configs :: "string \<Rightarrow> (string \<times> string \<times> string) option"
  github :: github_world
  budget_limit_setting :: rat

datatype response = Returned nat | Raised exn

datatype provisioner =
    GcpProjectProvisioner "asset list"
  | GcpFolderProvisioner "asset list"

definition PROJECT_ISSUE :: string where
  "PROJECT_ISSUE = ''New GCP Project Provisioning''"

definition FOLDER_ISSUE :: string where
  "FOLDER_ISSUE = ''New GCP Folder Provisioning''"

text \<open>
  The test of \<open>transform_into_json\<close>: the chain of \<open>or\<close> stops at the first
  disjunct that holds; \<open>True\<close> stands for a payload that passes.
\<close>

definition payload_shape_ok :: "pyval \<Rightarrow> exn + bool" where
  "payload_shape_ok j =
     (case j of
        PDict d \<Rightarrow>
          (case map_of d ''issue'' of
             None \<Rightarrow> Inr False
           | Some issue \<Rightarrow>
              (case py_contains ''key'' issue of
                 Inl e \<Rightarrow> Inl e
               | Inr False \<Rightarrow> Inr False
               | Inr True \<Rightarrow>
                  (case py_contains ''fields'' issue of
                     Inl e \<Rightarrow> Inl e
                   | Inr False \<Rightarrow> Inr False
                   | Inr True \<Rightarrow>
                      (case py_getitem issue ''fields'' of
                         Inl e \<Rightarrow> Inl e
                       | Inr flds \<Rightarrow>
                          (case py_contains ''issuetype'' flds of
                             Inl e \<Rightarrow> Inl e
                           | Inr False \<Rightarrow> Inr False
                           | Inr True \<Rightarrow>
                              (case py_getitem flds ''issuetype'' of
                                 Inl e \<Rightarrow> Inl e
                               | Inr it \<Rightarrow> py_contains ''name'' it))))))
      | _ \<Rightarrow> Inr False)"

definition invalid_payload_error :: exn where
  "invalid_payload_error =
     InvalidPayloadError
       (''Empty or invalid JSON payload received from request body. ''
        @ ''If not empty, check that the fields '' @ quoted ''key'' @ '' under '' @ quoted ''issue''
        @ '' is present and/or '' @ quoted ''name'' @ '' under '' @ quoted ''issue'' @ ''.''
        @ quoted ''fields'' @ ''.'' @ quoted ''issuetype'' @ ''.'')"

text \<open>\<open>_extract_issue_type_name\<close> and \<open>_extract_jira_id\<close>.\<close>

definition extract_issue_type_name :: "pyval \<Rightarrow> exn + pyval" where
  "extract_issue_type_name j =
     (case py_getitem j ''issue'' of Inl e \<Rightarrow> Inl e | Inr issue \<Rightarrow>
     (case py_getitem issue ''fields'' of Inl e \<Rightarrow> Inl e | Inr flds \<Rightarrow>
     (case py_getitem flds ''issuetype'' of Inl e \<Rightarrow> Inl e | Inr it \<Rightarrow>
        py_getitem it ''name'')))"

definition extract_jira_id :: "pyval \<Rightarrow> exn + pyval" where
  "extract_jira_id j =
     (case py_getitem j ''issue'' of Inl e \<Rightarrow> Inl e | Inr issue \<Rightarrow> py_getitem issue ''key'')"

text \<open>\<open>_extract_config_field_values_for_issue_request\<close>.\<close>

definition select_ticket_fields :: "builtins \<Rightarrow> pyval \<Rightarrow> exn + ticket_fields" where
  "select_ticket_fields B issue_type_name =
     (if issue_type_name = PStr PROJECT_ISSUE then Inr project_creation_ticket_fields
      else if issue_type_name = PStr FOLDER_ISSUE then Inr folder_creation_ticket_fields
      else Inl (InvalidJiraConfigurationParser
                  (''Issue type '' @ quoted (py_str B issue_type_name)
                   @ '' not found in the configuration file to parse the request arguments.'')))"

text \<open>\<open>select_provisioner\<close>.\<close>

definition select_provisioner :: "builtins \<Rightarrow> world \<Rightarrow> pyval \<Rightarrow> exn + provisioner" where
  "select_provisioner B Wd issue_type_name =
     (if issue_type_name = PStr PROJECT_ISSUE then
        Inr (GcpProjectProvisioner (list_projects_and_folders (asset_listing Wd)))
      else if issue_type_name = PStr FOLDER_ISSUE then
        Inr (GcpFolderProvisioner (list_projects_and_folders (asset_listing Wd)))
      else Inl (InvalidJiraConfigurationParser
                  (''Issue type '' @ quoted (py_str B issue_type_name)
                   @ '' not configured for provisioning.'')))"

text \<open>
  \<open>validate_jira_request\<close> of the orchestrator: the validator of the provisioner, then
  the summary comment; a \<open>GcpProvisioningError\<close> is commented, the ticket is blocked,
  and the error is raised again. The result carries the name list for the synthesizer.
\<close>

definition provisioner_validate ::
  "builtins \<Rightarrow> provisioner \<Rightarrow> config \<Rightarrow> exn + (config \<times> string list)" where
  "provisioner_validate B p cfg =
     (case p of
        GcpProjectProvisioner assets \<Rightarrow> validate_project_request B assets cfg
      | GcpFolderProvisioner assets \<Rightarrow>
          (case validate_folder_request B assets cfg of
             Inl e \<Rightarrow> Inl e
           | Inr cfg' \<Rightarrow> Inr (cfg', [])))"

definition provisioner_comment_message ::
  "builtins \<Rightarrow> provisioner \<Rightarrow> config \<Rightarrow> string list \<Rightarrow> exn + string" where
  "provisioner_comment_message B p cfg names =
     (case p of
        GcpProjectProvisioner assets \<Rightarrow> project_comment_message B cfg names
      | GcpFolderProvisioner assets \<Rightarrow> Inr (folder_comment_message B cfg))"

fun provisioning_error_events :: "pyval \<Rightarrow> exn \<Rightarrow> event list" where
  "provisioning_error_events jira_id (GcpProvisioningError m) = blocked_events jira_id m"
| "provisioning_error_events jira_id e = []"

definition validate_jira_request ::
  "builtins \<Rightarrow> provisioner \<Rightarrow> pyval \<Rightarrow> config
     \<Rightarrow> event list \<times> (exn + (config \<times> string list))" where
  "validate_jira_request B p jira_id cfg =
     (case provisioner_validate B p cfg of
        Inl e \<Rightarrow> (provisioning_error_events jira_id e, Inl e)
      | Inr (cfg', names) \<Rightarrow>
          (case provisioner_comment_message B p cfg' names of
             Inl e \<Rightarrow> (provisioning_error_events jira_id e, Inl e)
           | Inr msg \<Rightarrow> ([Comment jira_id msg ''info''], Inr (cfg', names))))"

text \<open>\<open>_get_github_credentials\<close> and \<open>initialize_github_manager\<close>.\<close>

definition get_github_credentials ::
  "builtins \<Rightarrow> world \<Rightarrow> pyval \<Rightarrow> exn + (string \<times> string \<times> string)" where
  "get_github_credentials B Wd issue_type_name =
     (let effective_config_key =
            (if debug Wd then ''debug_config'' else py_str B issue_type_name)
      in case github_configs Wd effective_config_key of
           None \<Rightarrow>
             Inl (GitHubOperationError
                    (''GitHub configuration missing for issue type: '' @ effective_config_key))
         | Some credentials \<Rightarrow> Inr credentials)"

definition initialize_github_manager ::
  "builtins \<Rightarrow> world \<Rightarrow> pyval \<Rightarrow> pyval \<Rightarrow> event list \<times> (exn + github_world)" where
  "initialize_github_manager B Wd jira_id issue_type_name =
     (if \<not> py_truthy issue_type_name then
        ([], Inl (MissingRequiredDataError
                    (''Issue type not found in transformed data for GitHub credentials. ''
                     @ ''Cannot initialize GitHub manager.'')))
      else
        (case get_github_credentials B Wd issue_type_name of
           Inl e \<Rightarrow> ([], Inl e)
         | Inr (token, repo_owner, repo_name) \<Rightarrow>
             ([Comment jira_id
                 (''Connecting to GitHub '' @ quoted repo_name @ '' under '' @ quoted repo_owner
                  @ '' for '' @ quoted (py_str B issue_type_name) @ ''.'') ''info''],
              Inr (github Wd))))"

text \<open>\<open>built_terraform_yaml\<close> of the orchestrator.\<close>

definition built_terraform_yaml ::
  "builtins \<Rightarrow> world \<Rightarrow> provisioner \<Rightarrow> pyval \<Rightarrow> config \<Rightarrow> string list
     \<Rightarrow> event list \<times> (exn + (string \<times> publish_unit) list)" where
  "built_terraform_yaml B Wd p jira_id cfg names =
     (case (case p of
              GcpProjectProvisioner assets \<Rightarrow>
                built_project_yamls B (budget_limit_setting Wd) cfg names
            | GcpFolderProvisioner assets \<Rightarrow> built_folder_yamls B cfg) of
        Inl e \<Rightarrow> (provisioning_error_events jira_id e, Inl e)
      | Inr payload \<Rightarrow> ([], Inr payload))"

text \<open>
  The \<open>try\<close> block of \<open>handle_jira_webhook\<close> from \<open>parse_jira_request\<close> to
  \<open>built_terraform_yaml\<close>, for a request whose issue type and key were extracted:
  the comments and transitions made, and the GitHub manager with the payload to
  publish.
\<close>

definition prepare_request ::
  "builtins \<Rightarrow> world \<Rightarrow> pyval \<Rightarrow> pyval \<Rightarrow> pyval
     \<Rightarrow> event list \<times> (exn + github_world \<times> (string \<times> publish_unit) list)" where
  "prepare_request B Wd j issue_type_name jira_id =
     (case select_ticket_fields B issue_type_name of
        Inl e \<Rightarrow> ([], Inl e)
      | Inr tfields \<Rightarrow>
      (case parse_jira_request B j [''ISSUE_KEY'' \<mapsto> jira_id] tfields of
        (ev1, Inl e) \<Rightarrow> (ev1, Inl e)
      | (ev1, Inr cfg) \<Rightarrow>
      (case select_provisioner B Wd issue_type_name of
        Inl e \<Rightarrow> (ev1, Inl e)
      | Inr p \<Rightarrow>
      (case validate_jira_request B p jira_id cfg of
        (ev2, Inl e) \<Rightarrow> (ev1 @ ev2, Inl e)
      | (ev2, Inr (cfg', names)) \<Rightarrow>
      (case initialize_github_manager B Wd jira_id issue_type_name of
        (ev3, Inl e) \<Rightarrow> (ev1 @ ev2 @ ev3, Inl e)
      | (ev3, Inr gh) \<Rightarrow>
      (case built_terraform_yaml B Wd p jira_id cfg' names of
        (ev4, Inl e) \<Rightarrow> (ev1 @ ev2 @ ev3 @ ev4, Inl e)
      | (ev4, Inr payload) \<Rightarrow> (ev1 @ ev2 @ ev3 @ ev4, Inr (gh, payload))))))))"

text \<open>
  The rest of the \<open>try\<close> block: \<open>push_to_github\<close>, then the transition that
  \<open>handle_jira_webhook\<close> makes itself.
\<close>

definition process_issue ::
  "builtins \<Rightarrow> world \<Rightarrow> pyval \<Rightarrow> pyval \<Rightarrow> pyval \<Rightarrow> event list \<times> (exn + unit)" where
  "process_issue B Wd j issue_type_name jira_id =
     (case prepare_request B Wd j issue_type_name jira_id of
        (prepared, Inl e) \<Rightarrow> (prepared, Inl e)
      | (prepared, Inr (gh, payload)) \<Rightarrow>
          (case push_to_github B (Some gh) jira_id payload of
             (pushed, Inl e) \<Rightarrow> (prepared @ pushed, Inl e)
           | (pushed, Inr u) \<Rightarrow>
               (prepared @ pushed @ [Transition jira_id ''Set as done''], Inr ())))"

text \<open>
  The \<open>except\<close> clauses of \<open>handle_jira_webhook\<close>. Two of them read a name that is not
  defined and so raise \<open>NameError\<close>; a \<open>BaseException\<close> is caught by none.
\<close>

fun webhook_handler :: "pyval \<Rightarrow> exn \<Rightarrow> event list \<times> response" where
  "webhook_handler jira_id (InvalidMethodError m) = ([], Returned 405)"
| "webhook_handler jira_id (InvalidJiraConfigurationParser m) = ([], Returned 404)"
| "webhook_handler jira_id (InvalidPayloadError m) =
     ([], Raised (NameError ''name webhook_data is not defined''))"
| "webhook_handler jira_id (MissingRequiredDataError m) =
     ([], Raised (NameError ''name webhook_data is not defined''))"
| "webhook_handler jira_id (GcpProvisioningError m) = ([], Returned 500)"
| "webhook_handler jira_id (GitHubOperationError m) = (blocked_events jira_id m, Returned 500)"
| "webhook_handler jira_id (PyBaseException m) = ([], Raised (PyBaseException m))"
| "webhook_handler jira_id e = (blocked_events jira_id (exn_str e), Returned 500)"

text \<open>
  \<open>extract_issue\<close> and what follows it. Until the key is extracted, \<open>am.jira_id\<close> is
  the empty string.
\<close>

definition start_comment :: "builtins \<Rightarrow> pyval \<Rightarrow> pyval \<Rightarrow> event" where
  "start_comment B jira_id issue_type_name =
     Comment jira_id
       (''[START] Received Jira webhook payload for '' @ py_str B jira_id
        @ '' ('' @ py_str B issue_type_name @ '').'') ''info''"

definition extract_issue_and_process ::
  "builtins \<Rightarrow> world \<Rightarrow> pyval \<Rightarrow> event list \<times> response" where
  "extract_issue_and_process B Wd j =
     (case extract_issue_type_name j of
        Inl e \<Rightarrow> webhook_handler (PStr []) e
      | Inr issue_type_name \<Rightarrow>
      (case extract_jira_id j of
        Inl e \<Rightarrow> webhook_handler (PStr []) e
      | Inr jira_id \<Rightarrow>
          (if \<not> py_truthy issue_type_name then
             webhook_handler jira_id
               (MissingRequiredDataError ''Issue type name not found in the request.'')
           else if \<not> py_truthy jira_id then
             webhook_handler jira_id
               (MissingRequiredDataError ''Issue Jira ID not found in the request.'')
           else
             (case process_issue B Wd j issue_type_name jira_id of
                (evs, Inr u) \<Rightarrow> (start_comment B jira_id issue_type_name # evs, Returned 200)
              | (evs, Inl e) \<Rightarrow>
                  (case webhook_handler jira_id e of
                     (hevs, r) \<Rightarrow>
                       (start_comment B jira_id issue_type_name # evs @ hevs, r))))))"

definition handle_jira_webhook :: "builtins \<Rightarrow> world \<Rightarrow> request \<Rightarrow> event list \<times> response" where
  "handle_jira_webhook B Wd rq =
     (if req_method rq \<noteq> ''POST'' then
        webhook_handler (PStr [])
          (InvalidMethodError ''Received non-POST request. Method Not Allowed.'')
      else
        (case payload_shape_ok (req_json rq) of
           Inl e \<Rightarrow> webhook_handler (PStr []) e
         | Inr False \<Rightarrow> webhook_handler (PStr []) invalid_payload_error
         | Inr True \<Rightarrow> extract_issue_and_process B Wd (req_json rq)))"

text \<open>The names of the transitions of a trace, in order.\<close>

fun transition_names :: "event list \<Rightarrow> string list" where
  "transition_names [] = []"
| "transition_names (Comment i msg kind # evs) = transition_names evs"
| "transition_names (Transition i t # evs) = t # transition_names evs"

section \<open>Sample requests\<close>


text \<open>
  An instance of the built-ins for the sample requests: \<open>re.match\<close> on the budget
  pattern (one to ten digits, a dot, one to five digits, then the end of the text or
  its final newline), \<open>float()\<close> on the decimals that pattern admits.
\<close>

definition budget_match :: "string \<Rightarrow> bool" where
  "budget_match s =
     (let a = takeWhile is_digit s; r = dropWhile is_digit s
      in 1 \<le> length a \<and> length a \<le> 10 \<and> starts_with ''.'' r \<and>
         (let b = takeWhile is_digit (tl r); t = dropWhile is_digit (tl r)
          in 1 \<le> length b \<and> length b \<le> 5 \<and> (t = [] \<or> t = [CHR 0x0A])))"

definition digit_value :: "char \<Rightarrow> nat" where
  "digit_value c = length (takeWhile (\<lambda>d. d \<noteq> c) ascii_digits)"

definition decimal_value :: "string \<Rightarrow> nat" where
  "decimal_value ds = foldl (\<lambda>n c. 10 * n + digit_value c) 0 ds"

definition decimal_float :: "string \<Rightarrow> rat option" where
  "decimal_float s =
     (if budget_match s then
        (let a = takeWhile is_digit s; b = takeWhile is_digit (tl (dropWhile is_digit s))
         in Some (of_nat (decimal_value a) + of_nat (decimal_value b) / 10 ^ length b))
      else None)"

text \<open>
  Base64 over the standard alphabet: three bytes make four characters, the last group
  is padded with \<open>=\<close>. The decoder drops every character outside the alphabet
  first, as \<open>base64.b64decode\<close> does by default.
\<close>

definition b64_alphabet :: string where
  "b64_alphabet = ''ABCDEFGHIJKLMNOPQRSTUVWXYZabcdefghijklmnopqrstuvwxyz0123456789+/''"

definition b64_index :: "char \<Rightarrow> nat" where
  "b64_index c = length (takeWhile (\<lambda>d. d \<noteq> c) b64_alphabet)"

definition byte_char :: "nat \<Rightarrow> char" where
  "byte_char n =
     Char (odd n) (odd (n div 2)) (odd (n div 4)) (odd (n div 8))
          (odd (n div 16)) (odd (n div 32)) (odd (n div 64)) (odd (n div 128))"

fun b64_encode :: "string \<Rightarrow> string" where
  "b64_encode [] = []"
| "b64_encode [a] =
     (let n = of_char a * 65536
      in [b64_alphabet ! (n div 262144), b64_alphabet ! (n div 4096 mod 64)] @ ''=='')"
| "b64_encode [a, b] =
     (let n = of_char a * 65536 + of_char b * 256
      in [b64_alphabet ! (n div 262144), b64_alphabet ! (n div 4096 mod 64),
          b64_alphabet ! (n div 64 mod 64)] @ ''='')"
| "b64_encode (a # b # c # rest) =
     (let n = of_char a * 65536 + of_char b * 256 + of_char c
      in [b64_alphabet ! (n div 262144), b64_alphabet ! (n div 4096 mod 64),
          b64_alphabet ! (n div 64 mod 64), b64_alphabet ! (n mod 64)] @ b64_encode rest)"

fun b64_groups :: "string \<Rightarrow> exn + string" where
  "b64_groups [] = Inr []"
| "b64_groups [c1, c2, c3, c4] =
     (if c3 = CHR ''='' \<and> c4 = CHR ''='' then
        Inr [byte_char ((b64_index c1 * 262144 + b64_index c2 * 4096) div 65536)]
      else if c4 = CHR ''='' then
        (let n = b64_index c1 * 262144 + b64_index c2 * 4096 + b64_index c3 * 64
         in Inr [byte_char (n div 65536), byte_char (n div 256 mod 256)])
      else
        (let n = b64_index c1 * 262144 + b64_index c2 * 4096 + b64_index c3 * 64 + b64_index c4
         in Inr [byte_char (n div 65536), byte_char (n div 256 mod 256), byte_char (n mod 256)]))"
| "b64_groups (c1 # c2 # c3 # c4 # rest) =
     (let n = b64_index c1 * 262144 + b64_index c2 * 4096 + b64_index c3 * 64 + b64_index c4
      in case b64_groups rest of
           Inl e \<Rightarrow> Inl e
         | Inr bs \<Rightarrow>
             Inr (byte_char (n div 65536) # byte_char (n div 256 mod 256)
                  # byte_char (n mod 256) # bs))"
| "b64_groups cs = Inl (ValueError ''Incorrect padding'')"

definition b64_decode :: "string \<Rightarrow> exn + string" where
  "b64_decode s = b64_groups (filter (\<lambda>c. c \<in> set b64_alphabet \<or> c = CHR ''='') s)"

text \<open>The samples do not look into the YAML text of a document.\<close>

definition sample_builtins :: builtins where
  "sample_builtins =
     \<lparr>re_match = (\<lambda>pat s. pat = budget_pattern \<and> budget_match s),
      py_repr = (\<lambda>v. ''<object>''),
      float_of_str = decimal_float,
      format_exc = exn_str,
      yaml_dump = (\<lambda>d. ''document: 1'' @ [CHR 0x0A]),
      b64encode = b64_encode,
      b64decode_text = b64_decode\<rparr>"










text \<open>A project request for two environments, as the extractor leaves it.\<close>

definition sample_project_config :: config where
  "sample_project_config =
     [''ISSUE_KEY'' \<mapsto> PStr ''OPS-7'', ''DATASECURITY'' \<mapsto> PStr ''l0'',
      ''PROJECT_TYPE'' \<mapsto> PStr ''internal'', ''PROJECT_TYPE_FOLDER'' \<mapsto> PStr ''poc'',
      ''ENVIRONMENT'' \<mapsto> PList [PStr ''dev'', PStr ''prod''],
      ''BUDGET_DEV'' \<mapsto> PFloat 100, ''BUDGET_PROD'' \<mapsto> PFloat 500,
      ''PROJECT_NAME'' \<mapsto> PStr ''MyApp'', ''FOLDER_NAME'' \<mapsto> PStr ''acme'',
      ''WBS'' \<mapsto> PStr ''wbs-1'', ''ENGAGEMENT_MANAGER'' \<mapsto> PStr ''Ada Lovelace'']"




text \<open>The configuration map of the sample project request after validation.\<close>

definition validated_project_config :: config where
  "validated_project_config =
     sample_project_config
       (''ENGAGEMENT_MANAGER'' \<mapsto> PStr ''ada_lovelace'', ''PROJECT_NAME'' \<mapsto> PStr ''myapp'',
        ''FOLDER_NAME'' \<mapsto> PStr ''acme'', ''WBS'' \<mapsto> PStr ''wbs-1'',
        ''DATASECURITY'' \<mapsto> PStr ''l0'',
        ''FOLDER_DEV'' \<mapsto> PStr ''folders/201'', ''FOLDER_PROD'' \<mapsto> PStr ''folders/202'')"

section \<open>Properties of the hierarchy index\<close>

lemma extract_dw_environment_Some_iff:
  "extract_dw_environment text = Some env \<longleftrightarrow>
     env \<noteq> [] \<and> list_all is_lower env \<and> (\<exists>rest. text = ''dw-'' @ env @ ''-'' @ rest)"
proof
  assume h: "extract_dw_environment text = Some env"
  define r where "r = drop 3 text"
  from h have sw: "starts_with ''dw-'' text"
    by (auto simp: extract_dw_environment_def split: if_splits)
  then have t: "text = ''dw-'' @ r"
    unfolding r_def starts_with_def by (metis append_take_drop_id length_Cons list.size(3) numeral_3_eq_3)
  from h sw have e: "env = takeWhile is_lower r" and ne: "env \<noteq> []"
    and a: "starts_with ''-'' (dropWhile is_lower r)"
    by (auto simp: extract_dw_environment_def Let_def r_def split: if_splits)
  from a obtain rest where d: "dropWhile is_lower r = ''-'' @ rest"
    unfolding starts_with_def by (metis append_take_drop_id)
  have "r = env @ ''-'' @ rest"
    using takeWhile_dropWhile_id [of is_lower r] e d by simp
  moreover have "list_all is_lower env"
    unfolding e list_all_iff by (auto dest: set_takeWhileD)
  ultimately show "env \<noteq> [] \<and> list_all is_lower env \<and> (\<exists>rest. text = ''dw-'' @ env @ ''-'' @ rest)"
    using ne t by auto
next
  assume "env \<noteq> [] \<and> list_all is_lower env \<and> (\<exists>rest. text = ''dw-'' @ env @ ''-'' @ rest)"
  then obtain rest where ne: "env \<noteq> []" and lo: "list_all is_lower env"
    and t: "text = ''dw-'' @ env @ ''-'' @ rest" by auto
  have nl: "\<not> is_lower (CHR ''-'')"
    by (simp add: is_lower_def ascii_lowercase_def)
  have tw: "takeWhile is_lower (env @ CHR ''-'' # rest) = env"
    using lo nl by (simp add: list_all_iff takeWhile_append2)
  have dw: "dropWhile is_lower (env @ CHR ''-'' # rest) = CHR ''-'' # rest"
    using lo nl by (simp add: list_all_iff dropWhile_append2)
  show "extract_dw_environment text = Some env"
    using ne tw dw by (simp add: extract_dw_environment_def t starts_with_def)
qed

text \<open>
  C10. The environment comes back out of \<open>dw-<env>-<name>\<close> exactly when the tag is
  a non-empty run of lowercase ASCII letters, whatever the project name is; and the
  extraction answers \<open>None\<close> exactly on the texts that do not begin with \<open>dw-\<close>,
  one or more lowercase letters and a hyphen.
\<close>

theorem extract_dw_environment_roundtrip:
  "(extract_dw_environment (''dw-'' @ env @ ''-'' @ pname) = Some env
      \<longleftrightarrow> env \<noteq> [] \<and> list_all is_lower env) \<and>
   (extract_dw_environment text = None
      \<longleftrightarrow> \<not> (\<exists>e rest. e \<noteq> [] \<and> list_all is_lower e \<and> text = ''dw-'' @ e @ ''-'' @ rest))"
proof
  show "extract_dw_environment (''dw-'' @ env @ ''-'' @ pname) = Some env
      \<longleftrightarrow> env \<noteq> [] \<and> list_all is_lower env"
    unfolding extract_dw_environment_Some_iff by auto
next
  have "extract_dw_environment text \<noteq> None \<longleftrightarrow> (\<exists>e. extract_dw_environment text = Some e)"
    by auto
  also have "\<dots> \<longleftrightarrow> (\<exists>e. e \<noteq> [] \<and> list_all is_lower e \<and>
                       (\<exists>rest. text = ''dw-'' @ e @ ''-'' @ rest))"
    unfolding extract_dw_environment_Some_iff ..
  finally show "extract_dw_environment text = None
      \<longleftrightarrow> \<not> (\<exists>e rest. e \<noteq> [] \<and> list_all is_lower e \<and> text = ''dw-'' @ e @ ''-'' @ rest)"
    by blast
qed

theorem extract_dw_environment_roundtrip_witness:
  "extract_dw_environment ''dw-dev-myapp'' = Some ''dev'' \<and>
   extract_dw_environment ''dw-Dev-myapp'' \<noteq> Some ''Dev'' \<and>
   (\<exists>e rest. e \<noteq> [] \<and> list_all is_lower e \<and> ''dw-prod-x'' = ''dw-'' @ e @ ''-'' @ rest)"
proof -
  have l: "list_all is_lower ''dev''" and u: "\<not> list_all is_lower ''Dev''"
    by (simp_all add: is_lower_def ascii_lowercase_def)
  have p: "extract_dw_environment ''dw-prod-x'' \<noteq> None"
    by (simp add: extract_dw_environment_def starts_with_def is_lower_def ascii_lowercase_def)
  have a: "extract_dw_environment ''dw-dev-myapp'' = Some ''dev''"
    using l extract_dw_environment_roundtrip [of "''dev''" "''myapp''" "[]"] by simp
  have b: "extract_dw_environment ''dw-Dev-myapp'' \<noteq> Some ''Dev''"
    using u extract_dw_environment_roundtrip [of "''Dev''" "''myapp''" "[]"] by simp
  have c: "\<exists>e rest. e \<noteq> [] \<and> list_all is_lower e \<and> ''dw-prod-x'' = ''dw-'' @ e @ ''-'' @ rest"
    using p extract_dw_environment_roundtrip [of "[]" "[]" "''dw-prod-x''"]
    by (elim conjE) (simp only:, blast)
  from a b c show ?thesis by (intro conjI)
qed

text \<open>
  C8. When the bulk listing fails the index is the empty list, and every existence
  check on it, for any name and any resource type, answers \<open>None\<close>.
\<close>

theorem failed_listing_nothing_exists:
  "list_projects_and_folders (ListingFailed e) = [] \<and>
   check_if_resource_exist fmt (list_projects_and_folders (ListingFailed e))
     resource_name resource_type = None"
  by simp

section \<open>Properties of the field extractor\<close>













section \<open>Properties of the validators\<close>





























lemmas string_evals = is_digit_def ascii_digits_def ends_with_def starts_with_def
  ascii_lowercase_def ascii_uppercase_def py_lower_def py_upper_def is_space_def label_text_def
  quoted_def












section \<open>Properties of the synthesizer\<close>

lemma py_upper_dev: "py_upper ''dev'' = ''DEV''"
  by (simp add: py_upper_def ascii_lowercase_def ascii_uppercase_def)

lemma decide_autoapprove_dev:
  assumes b: "cfg ''BUDGET_DEV'' = Some v"
    and d: "decide_autoapprove budget_limit cfg (Some ''dev'') = Inr approve"
  shows "approve = (cfg ''DATASECURITY'' = Some (PStr ''l0'') \<and> dev_budget_below budget_limit cfg)"
proof (cases "cfg ''DATASECURITY''")
  case None
  with d show ?thesis by (simp add: decide_autoapprove_def config_item_def)
next
  case (Some ds)
  show ?thesis
  proof (cases "ds = PStr ''l0''")
    case False
    with d Some show ?thesis
      by (simp add: decide_autoapprove_def config_item_def allow_autoapprove_on_dev_budget_limit_def)
  next
    case True
    show ?thesis
    proof (cases "py_number v")
      case None
      with d Some True b show ?thesis
        by (cases "v = PNone")
           (simp_all add: decide_autoapprove_def config_item_def py_less_than_def
              allow_autoapprove_on_dev_budget_limit_def dev_budget_below_def)
    next
      case (Some r)
      then have "v \<noteq> PNone" by auto
      with d \<open>cfg ''DATASECURITY'' = Some ds\<close> True b Some show ?thesis
        by (simp add: decide_autoapprove_def config_item_def py_less_than_def
              allow_autoapprove_on_dev_budget_limit_def dev_budget_below_def)
    qed
  qed
qed

lemma build_unit_autoapprove:
  assumes "build_unit B budget_limit cfg branch tag n = Inr u"
  shows "autoapprove u =
           PBool (unit_env u = Some ''dev'' \<and> cfg ''DATASECURITY'' = Some (PStr ''l0'') \<and>
                  dev_budget_below budget_limit cfg)"
proof -
  let ?env = "extract_dw_environment n"
  from assms obtain budget where
    bb: "build_budget_terraform_yaml cfg n ?env = Inr budget"
    by (cases "build_budget_terraform_yaml cfg n ?env") (simp_all add: build_unit_def Let_def)
  from assms bb obtain project where
    bp: "build_project_terraform_yaml cfg n ?env tag = Inr project"
    by (cases "build_project_terraform_yaml cfg n ?env tag") (simp_all add: build_unit_def Let_def)
  from assms bb bp obtain approve where
    da: "decide_autoapprove budget_limit cfg ?env = Inr approve"
    by (cases "decide_autoapprove budget_limit cfg ?env") (simp_all add: build_unit_def Let_def)
  from assms bb bp da have u: "unit_env u = ?env" "autoapprove u = PBool approve"
    by (auto simp: build_unit_def Let_def)
  show ?thesis
  proof (cases "?env = Some ''dev''")
    case False
    with da have "approve = False" by (simp add: decide_autoapprove_def)
    with False u show ?thesis by simp
  next
    case True
    from bb True obtain v where v: "cfg ''BUDGET_DEV'' = Some v"
      by (cases "cfg ''BUDGET_DEV''")
         (simp_all add: build_budget_terraform_yaml_def env_upper_def py_upper_dev config_item_def)
    from da True have "decide_autoapprove budget_limit cfg (Some ''dev'') = Inr approve" by simp
    from decide_autoapprove_dev [OF v this] True u show ?thesis by simp
  qed
qed

lemma dict_set_subset: "set (dict_set k v items) \<subseteq> insert (k, v) (set items)"
  by (induction items) (auto split: if_splits)

lemma build_units_invariant:
  assumes "build_units B budget_limit cfg branch tag payload names = Inr payload'"
    and "\<And>n u. (n, u) \<in> set payload \<Longrightarrow> P u"
    and "\<And>n u. build_unit B budget_limit cfg branch tag n = Inr u \<Longrightarrow> P u"
    and "(n, u) \<in> set payload'"
  shows "P u"
  using assms(1,2,4)
proof (induction names arbitrary: payload)
  case Nil
  then show ?case by auto
next
  case (Cons m names)
  from Cons.prems(1) obtain w where
    w: "build_unit B budget_limit cfg branch tag m = Inr w"
    and r: "build_units B budget_limit cfg branch tag (dict_set m w payload) names = Inr payload'"
    by (cases "build_unit B budget_limit cfg branch tag m") simp_all
  have "\<And>n u. (n, u) \<in> set (dict_set m w payload) \<Longrightarrow> P u"
  proof -
    fix n' u' assume "(n', u') \<in> set (dict_set m w payload)"
    then have "(n', u') = (m, w) \<or> (n', u') \<in> set payload"
      using dict_set_subset [of m w payload] by auto
    then show "P u'" using assms(3) [OF w] Cons.prems(2) by auto
  qed
  from Cons.IH [OF r this Cons.prems(3)] show ?case .
qed

text \<open>
  C1. Whatever configuration map and name list the synthesizer is given, every unit of
  a payload it produces has its auto-approve flag set exactly when the unit's
  environment is \<open>dev\<close>, the data-security level is \<open>l0\<close>, and the dev budget is
  in the configuration map and lies strictly below the limit. For a unit of the dev
  environment the budget document has read \<open>BUDGET_DEV\<close> before, so the default of
  \<open>config_data.get("BUDGET_DEV", 0.0)\<close> is never used.
\<close>

theorem autoapprove_policy:
  assumes "built_project_yamls B budget_limit cfg names = Inr payload"
    and "(n, u) \<in> set payload"
  shows "autoapprove u =
           PBool (unit_env u = Some ''dev'' \<and> cfg ''DATASECURITY'' = Some (PStr ''l0'') \<and>
                  dev_budget_below budget_limit cfg)"
proof -
  from assms(1) obtain branch tag where
    l: "build_units B budget_limit cfg branch tag [] names = Inr payload"
    by (auto simp: built_project_yamls_def split: sum.splits)
  show ?thesis
    by (rule build_units_invariant [OF l _ build_unit_autoapprove assms(2)]) simp
qed


lemmas synthesizer_evals = built_project_yamls_def build_unit_def build_budget_terraform_yaml_def
  build_project_terraform_yaml_def decide_autoapprove_def allow_autoapprove_on_dev_budget_limit_def
  py_less_than_def config_item_def env_upper_def data_security_mapping_def
  extract_dw_environment_def is_lower_def Let_def

lemma sample_units_built:
  "\<exists>u1 u2. built_project_yamls sample_builtins default_budget_limit validated_project_config
               [''dw-dev-myapp'', ''dw-prod-myapp''] =
             Inr [(''dw-dev-myapp'', u1), (''dw-prod-myapp'', u2)] \<and>
           unit_env u1 = Some ''dev'' \<and> unit_env u2 = Some ''prod''"
  by (simp add: synthesizer_evals validated_project_config_def sample_project_config_def
        string_evals default_budget_limit_def)

theorem autoapprove_policy_witness:
  "\<exists>u1 u2. built_project_yamls sample_builtins default_budget_limit validated_project_config
               [''dw-dev-myapp'', ''dw-prod-myapp''] =
             Inr [(''dw-dev-myapp'', u1), (''dw-prod-myapp'', u2)] \<and>
           autoapprove u1 = PBool True \<and> autoapprove u2 = PBool False"
proof -
  from sample_units_built obtain u1 u2 where
    b: "built_project_yamls sample_builtins default_budget_limit validated_project_config
               [''dw-dev-myapp'', ''dw-prod-myapp''] =
             Inr [(''dw-dev-myapp'', u1), (''dw-prod-myapp'', u2)]"
    and e: "unit_env u1 = Some ''dev''" "unit_env u2 = Some ''prod''" by blast
  have m1: "(''dw-dev-myapp'', u1) \<in> set [(''dw-dev-myapp'', u1), (''dw-prod-myapp'', u2)]"
    and m2: "(''dw-prod-myapp'', u2) \<in> set [(''dw-dev-myapp'', u1), (''dw-prod-myapp'', u2)]"
    by simp_all
  have ds: "validated_project_config ''DATASECURITY'' = Some (PStr ''l0'')"
    and bd: "dev_budget_below default_budget_limit validated_project_config"
    by (simp_all add: validated_project_config_def sample_project_config_def
          dev_budget_below_def default_budget_limit_def)
  have a1: "autoapprove u1 = PBool True"
    using autoapprove_policy [OF b m1] e ds bd by simp
  have a2: "autoapprove u2 = PBool False"
    using autoapprove_policy [OF b m2] e by simp
  from b a1 a2 show ?thesis by blast
qed


section \<open>Properties of the publisher\<close>






lemma strip_evals:
  "py_strip ''a: 1'' = ''a: 1''" "py_strip (''a: 1'' @ [CHR 0x0A]) = ''a: 1''"
  "py_strip (''a: 2'' @ [CHR 0x0A]) = ''a: 2''"
  by (simp_all add: py_strip_def is_space_def)




end
